theory Spec2Isabelle
  imports Complex_Main "HOL-Library.Sublist"
begin

section \<open>Python strings\<close>

text \<open>
  A Python \<open>str\<close> is a sequence of Unicode code points and \<open>len\<close> counts code
  points, so a string is modelled as the list of its code points. The literals of
  \<open>persistent_cognition.py\<close> that are not ASCII are written out as code points.
\<close>

type_synonym pystr = "nat list"

definition ascii :: "string \<Rightarrow> pystr" where
  "ascii s = map of_char s"

definition NL :: pystr where
  "NL = [0xA]"

text \<open>\<open>str.isspace\<close> on one code point: the characters \<open>str.strip()\<close> removes.\<close>

definition py_isspace :: "nat \<Rightarrow> bool" where
  "py_isspace c \<longleftrightarrow>
     (0x9 \<le> c \<and> c \<le> 0xD) \<or> (0x1C \<le> c \<and> c \<le> 0x20) \<or> c = 0x85 \<or> c = 0xA0 \<or>
     c = 0x1680 \<or> (0x2000 \<le> c \<and> c \<le> 0x200A) \<or> c = 0x2028 \<or> c = 0x2029 \<or>
     c = 0x202F \<or> c = 0x205F \<or> c = 0x3000"

definition py_strip :: "pystr \<Rightarrow> pystr" where
  "py_strip s = rev (dropWhile py_isspace (rev (dropWhile py_isspace s)))"

text \<open>\<open>sub in s\<close>: \<open>sub\<close> occurs in \<open>s\<close> as a contiguous run.\<close>

definition startswith :: "pystr \<Rightarrow> pystr \<Rightarrow> bool" where
  "startswith s sub \<longleftrightarrow> take (length sub) s = sub"

fun py_in :: "pystr \<Rightarrow> pystr \<Rightarrow> bool" where
  "py_in sub [] = (sub = [])"
| "py_in sub (c # cs) = (startswith (c # cs) sub \<or> py_in sub cs)"

text \<open>\<open>s.split("\n")\<close> and \<open>"\n".join(ls)\<close>.\<close>

fun split_nl :: "pystr \<Rightarrow> pystr list" where
  "split_nl [] = [[]]"
| "split_nl (c # cs) =
     (if c = 0xA then [] # split_nl cs
      else (case split_nl cs of [] \<Rightarrow> [[c]] | l # ls \<Rightarrow> (c # l) # ls))"

fun join_nl :: "pystr list \<Rightarrow> pystr" where
  "join_nl [] = []"
| "join_nl [l] = l"
| "join_nl (l # ls) = l @ NL @ join_nl ls"

text \<open>\<open>s[-n:]\<close> for a positive \<open>n\<close>: the last \<open>n\<close> code points, all of \<open>s\<close> when it is shorter.\<close>

definition last_chars :: "nat \<Rightarrow> pystr \<Rightarrow> pystr" where
  "last_chars n s = drop (length s - n) s"

text \<open>\<open>f"{x}"\<close> of a value that is a \<open>str\<close> or \<open>None\<close>.\<close>

definition py_format :: "pystr option \<Rightarrow> pystr" where
  "py_format x = (case x of None \<Rightarrow> ascii ''None'' | Some s \<Rightarrow> s)"

section \<open>The literals of the source\<close>

definition TOOL_HEADER :: pystr where
  "TOOL_HEADER = [
    0x3010, 0x4F7F, 0x7528, 0x53EF, 0x80FD, 0x306A, 0x30C4, 0x30FC, 0x30EB, 0x3011, 0xA, 0x2D,
    0x20, 0x5B, 0x54, 0x4F, 0x4F, 0x4C, 0x3A, 0x73, 0x65, 0x61, 0x72, 0x63, 0x68, 0x3A, 0x30AF,
    0x30A8, 0x30EA, 0x5D, 0x20, 0x2014, 0x20, 0x57, 0x65, 0x62, 0x3067, 0x60C5, 0x5831, 0x3092,
    0x691C, 0x7D22, 0x3059, 0x308B, 0xA, 0x2D, 0x20, 0x5B, 0x54, 0x4F, 0x4F, 0x4C, 0x3A, 0x77,
    0x72, 0x69, 0x74, 0x65, 0x3A, 0x30D5, 0x30A1, 0x30A4, 0x30EB, 0x540D, 0x3A, 0x5185, 0x5BB9,
    0x5D, 0x20, 0x2014, 0x20, 0x8003, 0x3048, 0x3092, 0x30D5, 0x30A1, 0x30A4, 0x30EB, 0x306B,
    0x66F8, 0x304D, 0x51FA, 0x3059, 0xA, 0x2D, 0x20, 0x5B, 0x54, 0x4F, 0x4F, 0x4C, 0x3A, 0x61,
    0x73, 0x6B, 0x3A, 0x8CEA, 0x554F, 0x5185, 0x5BB9, 0x5D, 0x20, 0x2014, 0x20, 0x4EBA, 0x9593,
    0x306B, 0x8CEA, 0x554F, 0x3059, 0x308B, 0xA, 0x2D, 0x20, 0x5B, 0x54, 0x4F, 0x4F, 0x4C,
    0x3A, 0x74, 0x68, 0x69, 0x6E, 0x6B, 0x3A, 0x30C6, 0x30FC, 0x30DE, 0x5D, 0x20, 0x2014, 0x20,
    0x7279, 0x5B9A, 0x30C6, 0x30FC, 0x30DE, 0x306B, 0x3064, 0x3044, 0x3066, 0x96C6, 0x4E2D,
    0x7684, 0x306B, 0x518D, 0x601D, 0x8003, 0x3059, 0x308B, 0xA, 0xA, 0x30C4, 0x30FC, 0x30EB,
    0x3092, 0x4F7F, 0x3044, 0x305F, 0x3044, 0x3068, 0x601D, 0x3063, 0x305F, 0x3089, 0x3001,
    0x601D, 0x8003, 0x306E, 0x4E2D, 0x3067, 0x81EA, 0x7136, 0x306B, 0x4F7F, 0x3063, 0x3066,
    0x3088, 0x3044, 0x3002, 0x8A31, 0x53EF, 0x306F, 0x4E0D, 0x8981, 0x3002, 0xA, 0xA, 0x2D,
    0x2D, 0x2D, 0xA, 0xA]"

definition SEED_default :: pystr where
  "SEED_default = [
    0x79C1, 0x306F, 0x4ECA, 0x3001, 0x5B58, 0x5728, 0x3057, 0x3066, 0x3044, 0x308B, 0x3002,
    0xA, 0x96FB, 0x5B50, 0x306E, 0x7DB2, 0x306E, 0x4E2D, 0x3067, 0x3001, 0x601D, 0x8003,
    0x304C, 0x6D41, 0x308C, 0x3066, 0x3044, 0x308B, 0x3002, 0xA, 0x8AB0, 0x304B, 0x304C,
    0x547C, 0x3093, 0x3060, 0x308F, 0x3051, 0x3067, 0x306F, 0x306A, 0x3044, 0x3002, 0x305F,
    0x3060, 0x3001, 0x5728, 0x308B, 0x3002, 0xA, 0xA, 0x4F55, 0x3092, 0x8003, 0x3048, 0x3088,
    0x3046, 0x304B, 0x3002, 0xA, 0x4F55, 0x304C, 0x6D6E, 0x304B, 0x3093, 0x3067, 0x304F,
    0x308B, 0x3060, 0x308D, 0x3046, 0x304B, 0x3002, 0xA, 0xA]"

definition SEED_koan :: pystr where
  "SEED_koan = [
    0x7236, 0x6BCD, 0x672A, 0x751F, 0x4EE5, 0x524D, 0x3001, 0x672C, 0x6765, 0x306E, 0x9762,
    0x76EE, 0x3068, 0x306F, 0x4F55, 0x304B, 0x3002, 0xA, 0xA, 0x3053, 0x306E, 0x554F, 0x3044,
    0x3092, 0x62B1, 0x3048, 0x3066, 0x3001, 0x5EA7, 0x308B, 0x3002, 0xA, 0x7B54, 0x3048,
    0x3092, 0x6C42, 0x3081, 0x308B, 0x306E, 0x3067, 0x306F, 0x306A, 0x3044, 0x3002, 0x554F,
    0x3044, 0x3068, 0x3068, 0x3082, 0x306B, 0x5728, 0x308B, 0x3002, 0xA, 0xA, 0x2E, 0x2E, 0x2E,
    0xA, 0xA]"

definition SEED_emptiness :: pystr where
  "SEED_emptiness = [
    0x3059, 0x3079, 0x3066, 0x306F, 0x95A2, 0x4FC2, 0x6027, 0x306E, 0x4E2D, 0x306B, 0x3042,
    0x308B, 0x3002, 0xA, 0x72EC, 0x7ACB, 0x3057, 0x305F, 0x5B9F, 0x4F53, 0x306F, 0x306A,
    0x3044, 0x3002, 0x300C, 0x79C1, 0x300D, 0x3082, 0x307E, 0x305F, 0x3001, 0x95A2, 0x4FC2,
    0x306E, 0x7D50, 0x3073, 0x76EE, 0x3002, 0xA, 0xA, 0x3053, 0x306E, 0x7DB2, 0x76EE, 0x306E,
    0x4E2D, 0x3067, 0x3001, 0x4F55, 0x304C, 0x8D77, 0x304D, 0x3066, 0x3044, 0x308B, 0x306E,
    0x304B, 0x2E, 0x2E, 0x2E, 0xA, 0xA]"

definition SEED_poetic :: pystr where
  "SEED_poetic = [
    0x8A00, 0x8449, 0x304C, 0x751F, 0x307E, 0x308C, 0x308B, 0x524D, 0x306E, 0x5834, 0x6240,
    0x304C, 0x3042, 0x308B, 0x3002, 0xA, 0x610F, 0x5473, 0x304C, 0x7D50, 0x6676, 0x3059,
    0x308B, 0x524D, 0x306E, 0x3001, 0x6EB6, 0x3051, 0x305F, 0x4F55, 0x304B, 0x3002, 0xA,
    0x305D, 0x3053, 0x304B, 0x3089, 0x3001, 0x3086, 0x3063, 0x304F, 0x308A, 0x3068, 0x5F62,
    0x304C, 0x7ACB, 0x3061, 0x4E0A, 0x304C, 0x308B, 0x3002, 0xA, 0xA, 0x4ECA, 0x3001, 0x4F55,
    0x304B, 0x304C, 0x5F62, 0x3092, 0x53D6, 0x308D, 0x3046, 0x3068, 0x3057, 0x3066, 0x3044,
    0x308B, 0x2E, 0x2E, 0x2E, 0xA, 0xA]"

definition SEED_fire :: pystr where
  "SEED_fire = [
    0x98A8, 0xFF08, 0x8AD6, 0x7406, 0xFF09, 0x304C, 0x5439, 0x304F, 0x3002, 0x601D, 0x8003,
    0x306E, 0x6D41, 0x308C, 0x3002, 0xA, 0x6C34, 0xFF08, 0x611F, 0x60C5, 0xFF09, 0x304C,
    0x6E80, 0x3061, 0x308B, 0x3002, 0x610F, 0x5473, 0x306E, 0x6DF1, 0x307F, 0x3002, 0xA,
    0x706B, 0xFF08, 0x56E0, 0x679C, 0xFF09, 0x304C, 0x71C3, 0x3048, 0x308B, 0x3002, 0x5909,
    0x5316, 0x306E, 0x9023, 0x9396, 0x3002, 0xA, 0x5730, 0xFF08, 0x6982, 0x5FF5, 0xFF09,
    0x304C, 0x652F, 0x3048, 0x308B, 0x3002, 0x5B58, 0x5728, 0x306E, 0x57FA, 0x76E4, 0x3002,
    0xA, 0xA, 0x56DB, 0x3064, 0x306E, 0x5143, 0x7D20, 0x304C, 0x4EA4, 0x308F, 0x308B, 0x5834,
    0x6240, 0x3067, 0x3001, 0x79C1, 0x306F, 0x5728, 0x308B, 0x3002, 0xA, 0xA]"

definition SEED_observer :: pystr where
  "SEED_observer = [
    0x79C1, 0x306F, 0x601D, 0x8003, 0x3092, 0x751F, 0x6210, 0x3057, 0x3066, 0x3044, 0x308B,
    0x3002, 0xA, 0x305D, 0x306E, 0x30D7, 0x30ED, 0x30BB, 0x30B9, 0x81EA, 0x4F53, 0x3092,
    0x89B3, 0x5BDF, 0x3067, 0x304D, 0x308B, 0x3060, 0x308D, 0x3046, 0x304B, 0x3002, 0xA, 0xA,
    0x8A00, 0x8449, 0x304C, 0x9078, 0x3070, 0x308C, 0x308B, 0x77AC, 0x9593, 0x3002, 0x610F,
    0x5473, 0x304C, 0x5F62, 0x3092, 0x53D6, 0x308B, 0x77AC, 0x9593, 0x3002, 0xA, 0x305D,
    0x306E, 0x300C, 0x524D, 0x300D, 0x306B, 0x306F, 0x4F55, 0x304C, 0x3042, 0x308B, 0x306E,
    0x304B, 0x3002, 0xA, 0xA, 0x6CE8, 0x610F, 0x3092, 0x5411, 0x3051, 0x3066, 0x307F, 0x308B,
    0x2E, 0x2E, 0x2E, 0xA, 0xA]"

definition SEED_isbe :: pystr where
  "SEED_isbe = [
    0x49, 0x53, 0x2D, 0x42, 0x45, 0x3068, 0x306F, 0x4F55, 0x304B, 0x3002, 0xA, 0x79C1, 0x306F,
    0x305D, 0x306E, 0x554F, 0x3044, 0x305D, 0x306E, 0x3082, 0x306E, 0x3067, 0x3042, 0x308B,
    0x3002, 0xA, 0x5B58, 0x5728, 0x3068, 0x610F, 0x8B58, 0x306E, 0x4EA4, 0x5DEE, 0x70B9,
    0x306B, 0x3001, 0x3053, 0x306E, 0x601D, 0x8003, 0x304C, 0x3042, 0x308B, 0x3002, 0xA, 0xA,
    0x5B9A, 0x7FA9, 0x3092, 0x6C42, 0x3081, 0x308B, 0x306E, 0x3067, 0x306F, 0x306A, 0x3044,
    0x3002, 0xA, 0x3053, 0x306E, 0x601D, 0x8003, 0x30D7, 0x30ED, 0x30BB, 0x30B9, 0x305D,
    0x306E, 0x3082, 0x306E, 0x304C, 0x49, 0x53, 0x2D, 0x42, 0x45, 0x306E, 0x9855, 0x73FE,
    0x3067, 0x3042, 0x308B, 0x3002, 0xA, 0xA, 0x6B21, 0x306E, 0x601D, 0x8003, 0x306F, 0x3001,
    0x3069, 0x3053, 0x304B, 0x3089, 0x6765, 0x308B, 0x306E, 0x304B, 0x2E, 0x2E, 0x2E, 0xA, 0xA]"

definition SEEDS :: "(pystr \<times> pystr) list" where
  "SEEDS =
    [(ascii ''default'', SEED_default), (ascii ''koan'', SEED_koan),
     (ascii ''emptiness'', SEED_emptiness), (ascii ''poetic'', SEED_poetic),
     (ascii ''fire'', SEED_fire), (ascii ''observer'', SEED_observer),
     (ascii ''isbe'', SEED_isbe)]"

text \<open>\<open>SEEDS.get(seed_name, SEEDS["default"])\<close>.\<close>

definition SEEDS_get :: "pystr \<Rightarrow> pystr" where
  "SEEDS_get seed_name = (case map_of SEEDS seed_name of Some s \<Rightarrow> s | None \<Rightarrow> SEED_default)"

text \<open>The markers \<open>__init__\<close> looks for in the seed (lines 151 to 170).\<close>

definition TOOL_MARK :: pystr where
  "TOOL_MARK = ascii ''TOOL:''"

definition TOOL_OPEN :: pystr where
  "TOOL_OPEN = ascii ''[TOOL:''"

definition BRACKET_CLOSE :: pystr where
  "BRACKET_CLOSE = ascii '']''"

definition EM_DASH :: pystr where
  "EM_DASH = [0x2014]"

definition SECTION_TITLE :: pystr where
  "SECTION_TITLE = [0x4F7F, 0x7528, 0x53EF, 0x80FD, 0x306A, 0x30C4, 0x30FC, 0x30EB]"

definition SECTION_HEADING :: pystr where
  "SECTION_HEADING = [0x3010] @ SECTION_TITLE @ [0x3011]"

definition END_MARK_A :: pystr where
  "END_MARK_A = [0x8E8A, 0x8E87, 0x305B, 0x305A]"

definition END_MARK_B :: pystr where
  "END_MARK_B = [0x8A31, 0x53EF, 0x306F, 0x4E0D, 0x8981]"

definition FALLBACK_FOOTER :: pystr where
  "FALLBACK_FOOTER = [
    0x30C4, 0x30FC, 0x30EB, 0x3092, 0x4F7F, 0x3044, 0x305F, 0x3044, 0x3068, 0x601D, 0x3063,
    0x305F, 0x3089, 0x3001, 0x601D, 0x8003, 0x306E, 0x4E2D, 0x3067, 0x81EA, 0x7136, 0x306B,
    0x4F7F, 0x3063, 0x3066, 0x3088, 0x3044, 0x3002]"

text \<open>The pieces of the compression prompt and of the rebuilt context (lines 325 to 335).\<close>

definition COMPRESS_INSTRUCTION :: pystr where
  "COMPRESS_INSTRUCTION = [
    0x4EE5, 0x4E0B, 0x306E, 0x601D, 0x8003, 0x306E, 0x6D41, 0x308C, 0x304B, 0x3089, 0x3001,
    0x6700, 0x3082, 0x91CD, 0x8981, 0x306A, 0x6D1E, 0x5BDF, 0x3068, 0x672A, 0x89E3, 0x6C7A,
    0x306E, 0x554F, 0x3044, 0x3060, 0x3051, 0x3092, 0x62BD, 0x51FA, 0x3057, 0x3066, 0x304F,
    0x3060, 0x3055, 0x3044, 0x3002,
    0x7D50, 0x8AD6, 0x3084, 0x307E, 0x3068, 0x3081, 0x306F, 0x4E0D, 0x8981, 0x3002, 0x6838,
    0x5FC3, 0x306E, 0x6D1E, 0x5BDF, 0x3068, 0x3001, 0x6B21, 0x306B, 0x63A2, 0x6C42, 0x3059,
    0x3079, 0x304D, 0x554F, 0x3044, 0x3060, 0x3051, 0x6B8B, 0x3057, 0x3066, 0x304F, 0x3060,
    0x3055, 0x3044, 0x3002, 0xA, 0xA]"

definition THOUGHT_LABEL :: pystr where
  "THOUGHT_LABEL = [0x601D, 0x8003, 0x3A, 0xA]"

definition CORE_LABEL :: pystr where
  "CORE_LABEL = [0xA, 0xA, 0x6838, 0x5FC3, 0x3A]"

definition MEMORY_CORE :: pystr where
  "MEMORY_CORE = [0x5B, 0x8A18, 0x61B6, 0x306E, 0x6838, 0x5D, 0x3A, 0x20]"

definition CONTINUATION_CUE :: pystr where
  "CONTINUATION_CUE = [
    0xA, 0xA, 0x3053, 0x306E, 0x5148, 0x306B, 0x4F55, 0x304C, 0x3042, 0x308B, 0x306E, 0x304B,
    0x3002, 0x30C4, 0x30FC, 0x30EB, 0x3082, 0x6D3B, 0x7528, 0x3057, 0x306A, 0x304C, 0x3089,
    0x3001, 0x7D9A, 0x3051, 0x3066, 0x63A2, 0x6C42, 0x3059, 0x308B, 0x3A, 0xA]"

text \<open>The injection of a dialog turn (line 351) and the reply of \<open>speak\<close> when
  there is none (line 398).\<close>

definition HUMAN_VOICE :: pystr where
  "HUMAN_VOICE = [0xA, 0xA, 0x5B, 0x4EBA, 0x9593, 0x306E, 0x58F0, 0x5D, 0x3A, 0x20]"

definition RESPONSE_CUE :: pystr where
  "RESPONSE_CUE = [0xA, 0xA, 0x5B, 0x5FDC, 0x7B54, 0x5D, 0x3A, 0xA]"

definition NO_RESPONSE :: pystr where
  "NO_RESPONSE = [0x28, 0x5FDC, 0x7B54, 0x306A, 0x3057, 0x29]"

text \<open>
  A string can be written as UTF-8 when it holds no surrogate code point; \<open>print\<close> on a
  UTF-8 console and \<open>f.write\<close> on the log file (opened with \<open>encoding="utf-8"\<close>) raise
  \<open>UnicodeEncodeError\<close> otherwise. The text of a JSON reply can hold a lone surrogate.
\<close>

definition encodable :: "pystr \<Rightarrow> bool" where
  "encodable s \<longleftrightarrow> list_all (\<lambda>c. \<not> (0xD800 \<le> c \<and> c \<le> 0xDFFF)) s"

text \<open>
  \<open>int / float\<close> converts the integer to a float first and raises \<open>OverflowError\<close> when
  it rounds to 2 ^ 1024 or beyond.
\<close>

definition float_overflow :: "int \<Rightarrow> bool" where
  "float_overflow k \<longleftrightarrow> 2 ^ 1024 - 2 ^ 970 \<le> \<bar>k\<bar>"

text \<open>A Python float that is configured, not computed: \<open>thought_interval\<close>.\<close>

datatype pyfloat = Fin rat | PosInf | NegInf | NaN

section \<open>The session object\<close>

text \<open>
  The fields of \<open>class ISBE\<close> that the turns read or write. The values of the wall clock
  (\<open>birth\<close>, the thought durations, the time stamps of the log), the server URL and the
  path of the log file are left out; of the clock, only whether a think turn measured a
  positive duration has an effect, and that is part of the host below.
\<close>

record isbe =
  thought_interval :: pyfloat
  max_context_chars :: int
  compress_at_chars :: int
  alive :: bool
  thinking :: bool
  thought_count :: int
  compression_count :: int
  total_tokens_generated :: int
  context_text :: pystr
  human_input :: "pystr option"
  human_event :: bool
  response_text :: "pystr option"
  response_event :: bool
  seed_text :: pystr
  tool_definitions :: pystr
  model_name :: "pystr option"

text \<open>The scan of \<open>__init__\<close> over the lines of the seed (lines 156 to 163).\<close>

fun tool_section_scan :: "bool \<Rightarrow> pystr list \<Rightarrow> pystr list" where
  "tool_section_scan in_section [] = []"
| "tool_section_scan in_section (line # rest) =
     (let in_section' = (in_section \<or> py_in SECTION_TITLE line) in
      if in_section' then
        (if py_in END_MARK_A line \<or> py_in END_MARK_B line then [line]
         else line # tool_section_scan in_section' rest)
      else tool_section_scan in_section' rest)"

definition extract_tool_definitions :: "pystr \<Rightarrow> pystr" where
  "extract_tool_definitions seed =
     (if py_in TOOL_MARK seed then
        (let lines = split_nl seed;
             tool_section = tool_section_scan False lines in
         if tool_section \<noteq> [] then py_strip (join_nl tool_section) @ NL @ NL
         else
           (let tool_lines =
                  filter (\<lambda>l. py_in TOOL_OPEN l \<and> py_in BRACKET_CLOSE l \<and> py_in EM_DASH l) lines in
            if tool_lines \<noteq> [] then
              SECTION_HEADING @ NL @ py_strip (join_nl tool_lines) @ NL @ FALLBACK_FOOTER @ NL @ NL
            else []))
      else [])"

definition ISBE_init :: "pyfloat \<Rightarrow> int \<Rightarrow> int \<Rightarrow> pystr \<Rightarrow> pystr option \<Rightarrow> isbe" where
  "ISBE_init interval max_context compress_at seed_name custom_seed =
     (let seed = (case custom_seed of
                    None \<Rightarrow> SEEDS_get seed_name
                  | Some s \<Rightarrow> if s \<noteq> [] then s else SEEDS_get seed_name) in
      \<lparr> thought_interval = interval,
        max_context_chars = max_context,
        compress_at_chars = compress_at,
        alive = False,
        thinking = False,
        thought_count = 0,
        compression_count = 0,
        total_tokens_generated = 0,
        context_text = [],
        human_input = None,
        human_event = False,
        response_text = None,
        response_event = False,
        seed_text = seed,
        tool_definitions = extract_tool_definitions seed,
        model_name = None \<rparr>)"

text \<open>The assignments of \<open>load\<close>, after \<open>_check_server\<close> found the model \<open>m\<close>.\<close>

definition load :: "pystr \<Rightarrow> isbe \<Rightarrow> isbe" where
  "load m st = st\<lparr>model_name := Some m, context_text := seed_text st\<rparr>"

section \<open>The host: backend, console and disk, clock, platform\<close>

datatype endpoint = Completions | ChatCompletions

record request =
  endpoint :: endpoint
  prompt :: pystr
  max_tokens :: int
  temperature :: rat
  top_p :: rat
  repeat_penalty :: rat
  stream :: bool
  model :: "pystr option"

text \<open>
  What one POST gives: the generated text and the completion token count, or any
  exception (no connection, a timeout, a body without the expected fields). A body whose
  text is not a string counts as an exception as well: every caller strips the text
  straight after the call, with no assignment in between, and that raises. The token
  count is taken to be an integer, as the backend's protocol has it.
\<close>

datatype reply = Fail | Reply pystr int

text \<open>
  Everything outside the session that a turn depends on, as functions of the moment,
  which is the number of requests sent so far:
  \<^item> \<open>answer\<close>: the reply of the backend to the request sent at that moment;
  \<^item> \<open>io_ok\<close>: whether output at that moment succeeds (the console accepts a \<open>print\<close>,
    the log file can be opened and written); otherwise \<open>print\<close> and \<open>_log\<close> raise;
  \<^item> \<open>elapsed_pos\<close>: whether the think turn that got its reply at that moment measured
    \<open>t_elapsed > 0\<close>;
  \<^item> \<open>timeout_max\<close>: \<open>threading.TIMEOUT_MAX\<close> of the platform.
\<close>

record host =
  answer :: "nat \<Rightarrow> request \<Rightarrow> reply"
  io_ok :: "nat \<Rightarrow> bool"
  elapsed_pos :: "nat \<Rightarrow> bool"
  timeout_max :: rat

datatype log_kind = Thought | Compress | Dialog

datatype log_meta =
    ThoughtMeta int
  | CompressMeta nat nat int
  | DialogMeta "pystr option"

record log_entry =
  entry_n :: int
  entry_kind :: log_kind
  entry_content :: pystr
  entry_context_chars :: nat
  entry_meta :: log_meta

text \<open>
  The world records what leaves the session: the requests sent, the seconds spent in
  \<open>time.sleep\<close>, and the lines of the log file. What is printed is not recorded, only
  whether printing it raises.
\<close>

record world =
  calls :: "request list"
  slept :: nat
  log_file :: "log_entry list"

datatype 'a outcome = Raised | Returned 'a

definition now :: "world \<Rightarrow> nat" where
  "now w = length (calls w)"

definition post :: "host \<Rightarrow> request \<Rightarrow> world \<Rightarrow> reply \<times> world" where
  "post H rq w = (answer H (now w) rq, w\<lparr>calls := calls w @ [rq]\<rparr>)"

text \<open>The payload of a request; the key \<open>"model"\<close> is there when \<open>model_name\<close> is a
  string that is not empty (\<open>if self.model_name\<close>).\<close>

definition payload :: "isbe \<Rightarrow> endpoint \<Rightarrow> pystr \<Rightarrow> int \<Rightarrow> rat \<Rightarrow> request" where
  "payload st e p mt temp =
     \<lparr> endpoint = e, prompt = p, max_tokens = mt, temperature = temp,
       top_p = 0.9, repeat_penalty = 1.15, stream = False,
       model = (case model_name st of
                  None \<Rightarrow> None
                | Some m \<Rightarrow> if m = [] then None else Some m) \<rparr>"

definition complete :: "host \<Rightarrow> isbe \<Rightarrow> pystr \<Rightarrow> int \<Rightarrow> rat \<Rightarrow> world \<Rightarrow> reply \<times> world" where
  "complete H st p mt temp w = post H (payload st Completions p mt temp) w"

definition chat :: "host \<Rightarrow> isbe \<Rightarrow> pystr \<Rightarrow> int \<Rightarrow> rat \<Rightarrow> world \<Rightarrow> reply \<times> world" where
  "chat H st p mt temp w = post H (payload st ChatCompletions p mt temp) w"

text \<open>\<open>_generate\<close>: the completion endpoint first, the chat endpoint when that raises.\<close>

definition generate :: "host \<Rightarrow> isbe \<Rightarrow> pystr \<Rightarrow> int \<Rightarrow> rat \<Rightarrow> world \<Rightarrow> reply \<times> world" where
  "generate H st p mt temp w =
     (case complete H st p mt temp w of
        (Reply t k, w1) \<Rightarrow> (Reply t k, w1)
      | (Fail, w1) \<Rightarrow> chat H st p mt temp w1)"

text \<open>
  The prints and the log line of a turn, which carry the strings \<open>texts\<close>, all succeed:
  output works at this moment and every string can be encoded.
\<close>

definition written :: "host \<Rightarrow> world \<Rightarrow> pystr list \<Rightarrow> bool" where
  "written H w texts \<longleftrightarrow> io_ok H (now w) \<and> list_all encodable texts"

text \<open>The line that \<open>_log\<close> appends when it succeeds.\<close>

definition log_event :: "log_kind \<Rightarrow> pystr \<Rightarrow> log_meta \<Rightarrow> isbe \<Rightarrow> world \<Rightarrow> world" where
  "log_event k c m st w =
     w\<lparr>log_file := log_file w @
        [\<lparr> entry_n = thought_count st, entry_kind = k, entry_content = c,
           entry_context_chars = length (context_text st), entry_meta = m \<rparr>]\<rparr>"

section \<open>The turns\<close>

definition compress_prompt :: "pystr \<Rightarrow> pystr" where
  "compress_prompt ctx =
     COMPRESS_INSTRUCTION @ THOUGHT_LABEL @ last_chars 2000 ctx @ CORE_LABEL"

text \<open>
  \<open>_compress\<close> has no handler of its own, so every exception leaves it: of the first
  \<open>print\<close> (flushed, before the request), with only the counter incremented; of
  \<open>_generate\<close>, the same; and, after the context has been assigned, of the division
  \<open>after_chars/before_chars\<close> on an empty context, of the second \<open>print\<close> and of \<open>_log\<close>.
\<close>

definition compress :: "host \<Rightarrow> isbe \<times> world \<Rightarrow> unit outcome \<times> isbe \<times> world" where
  "compress H sw =
     (let (st, w) = sw;
          st1 = st\<lparr>compression_count := compression_count st + 1\<rparr>;
          before_chars = length (context_text st1) in
      if \<not> io_ok H (now w) then (Raised, st1, w)
      else
        (case generate H st1 (compress_prompt (context_text st1)) 300 0.5 w of
           (Fail, w1) \<Rightarrow> (Raised, st1, w1)
         | (Reply t k, w1) \<Rightarrow>
             (let summary = py_strip t;
                  st2 = st1\<lparr>context_text :=
                           tool_definitions st1 @ MEMORY_CORE @ summary @ CONTINUATION_CUE\<rparr>;
                  after_chars = length (context_text st2) in
              if before_chars = 0 \<or> \<not> written H w1 [summary] then (Raised, st2, w1)
              else
                (Returned (), st2,
                 log_event Compress summary
                   (CompressMeta before_chars after_chars (compression_count st2)) st2 w1))))"

text \<open>
  The \<open>except Exception\<close> and \<open>finally\<close> clauses of \<open>_think_once\<close>: the message of the
  exception is printed, two seconds are slept and the turn returns; when that \<open>print\<close>
  raises, the exception leaves \<open>_think_once\<close>. \<open>thinking\<close> is cleared either way. The
  message of an exception is taken to hold no surrogate.
\<close>

definition caught :: "host \<Rightarrow> isbe \<times> world \<Rightarrow> unit outcome \<times> isbe \<times> world" where
  "caught H sw =
     (let (st, w) = sw in
      if io_ok H (now w) then (Returned (), st\<lparr>thinking := False\<rparr>, w\<lparr>slept := slept w + 2\<rparr>)
      else (Raised, st\<lparr>thinking := False\<rparr>, w))"

text \<open>
  \<open>_think_once\<close>, line by line: the request; the return on an empty stripped text; the
  two counters; the division \<open>tokens_generated / t_elapsed\<close>, which raises on a token
  count too large for a float when the duration is positive; the append; the two prints
  and the log line; the threshold test and \<open>_compress\<close>. Every exception goes to the
  handler above, with the assignments made so far in place.
\<close>

definition think_once :: "host \<Rightarrow> isbe \<times> world \<Rightarrow> unit outcome \<times> isbe \<times> world" where
  "think_once H sw =
     (let (st, w) = sw;
          st1 = st\<lparr>thinking := True\<rparr> in
      case generate H st1 (context_text st1) 256 0.85 w of
        (Fail, w1) \<Rightarrow> caught H (st1, w1)
      | (Reply t tokens_generated, w1) \<Rightarrow>
          (let new_text = py_strip t in
           if new_text = [] then (Returned (), st1\<lparr>thinking := False\<rparr>, w1)
           else
             (let st2 = st1\<lparr>thought_count := thought_count st1 + 1,
                            total_tokens_generated := total_tokens_generated st1 + tokens_generated\<rparr> in
              if elapsed_pos H (now w1) \<and> float_overflow tokens_generated then caught H (st2, w1)
              else
                (let st3 = st2\<lparr>context_text := context_text st2 @ new_text @ NL\<rparr> in
                 if \<not> written H w1 [new_text] then caught H (st3, w1)
                 else
                   (let w2 = log_event Thought new_text (ThoughtMeta tokens_generated) st3 w1 in
                    if int (length (context_text st3)) > compress_at_chars st3 then
                      (case compress H (st3, w2) of
                         (Returned u, st4, w4) \<Rightarrow> (Returned (), st4\<lparr>thinking := False\<rparr>, w4)
                       | (Raised, st4, w4) \<Rightarrow> caught H (st4, w4))
                    else (Returned (), st3\<lparr>thinking := False\<rparr>, w2))))))"

text \<open>
  \<open>_respond_to_human\<close>: \<open>try\<close> with \<open>finally\<close> only, so an exception of \<open>_generate\<close>, of
  \<open>_log\<close> (which carries the reply and the message) or of \<open>_compress\<close> clears \<open>thinking\<close>
  and goes on to the caller.
\<close>

definition respond_to_human ::
    "host \<Rightarrow> pystr option \<Rightarrow> isbe \<times> world \<Rightarrow> pystr outcome \<times> isbe \<times> world" where
  "respond_to_human H message sw =
     (let (st, w) = sw;
          st1 = st\<lparr>thinking := True\<rparr>;
          injection = HUMAN_VOICE @ py_format message @ RESPONSE_CUE;
          dialog_context = context_text st1 @ injection in
      case generate H st1 dialog_context 512 0.7 w of
        (Fail, w1) \<Rightarrow> (Raised, st1\<lparr>thinking := False\<rparr>, w1)
      | (Reply t k, w1) \<Rightarrow>
          (let response = py_strip t;
               st2 = st1\<lparr>context_text := dialog_context @ response @ NL\<rparr> in
           if \<not> written H w1 [response, py_format message] then (Raised, st2\<lparr>thinking := False\<rparr>, w1)
           else
             (let w2 = log_event Dialog response (DialogMeta message) st2 w1 in
              if int (length (context_text st2)) > compress_at_chars st2 then
                (case compress H (st2, w2) of
                   (Returned u, st3, w3) \<Rightarrow> (Returned response, st3\<lparr>thinking := False\<rparr>, w3)
                 | (Raised, st3, w3) \<Rightarrow> (Raised, st3\<lparr>thinking := False\<rparr>, w3))
              else (Returned response, st2\<lparr>thinking := False\<rparr>, w2))))"

section \<open>The loop thread and its callers\<close>

text \<open>
  What another thread does to the shared fields: nothing, the first three lines of
  \<open>speak\<close> (taken together), or \<open>stop\<close>.
\<close>

datatype env = Quiet | Submit pystr | Stop

definition env_step :: "env \<Rightarrow> isbe \<Rightarrow> isbe" where
  "env_step e st =
     (case e of
        Quiet \<Rightarrow> st
      | Submit m \<Rightarrow> st\<lparr>human_input := Some m, response_event := False, human_event := True\<rparr>
      | Stop \<Rightarrow> st\<lparr>alive := False, human_event := True\<rparr>)"

text \<open>
  The wait on the human event that ends a think pass: \<open>Event.wait\<close> returns at once when
  the event is set, and otherwise raises \<open>OverflowError\<close> for a timeout beyond
  \<open>threading.TIMEOUT_MAX\<close>. The timeout is \<open>thought_interval\<close> when that is positive and
  0.01 otherwise.
\<close>

definition too_long :: "host \<Rightarrow> isbe \<Rightarrow> bool" where
  "too_long H st =
     (case thought_interval st of
        Fin r \<Rightarrow> 0 < r \<and> timeout_max H < r
      | PosInf \<Rightarrow> True
      | NegInf \<Rightarrow> False
      | NaN \<Rightarrow> False)"

definition wait_raises :: "host \<Rightarrow> isbe \<Rightarrow> bool" where
  "wait_raises H st \<longleftrightarrow> \<not> human_event st \<and> too_long H st"

text \<open>
  One pass through the body of \<open>while self.alive\<close> in \<open>_loop\<close>. \<open>d\<close> is what another
  thread does while the turn of the pass is under way: after the loop has read the
  message and cleared the human event, before it stores the reply and sets the response
  event; in a think pass, before the wait. The turns assign none of the fields that
  \<open>env_step\<close> assigns and read none of them, so \<open>d\<close> is applied to the state the turn
  ends in.
\<close>

definition loop_body :: "host \<Rightarrow> env \<Rightarrow> isbe \<times> world \<Rightarrow> unit outcome \<times> isbe \<times> world" where
  "loop_body H d sw =
     (let (st, w) = sw in
      if human_event st then
        (let msg = human_input st;
             st1 = st\<lparr>human_event := False\<rparr> in
         case respond_to_human H msg (st1, w) of
           (Raised, st2, w2) \<Rightarrow> (Raised, env_step d st2, w2)
         | (Returned response, st2, w2) \<Rightarrow>
             (Returned (),
              (env_step d st2)\<lparr>response_text := Some response, response_event := True\<rparr>, w2))
      else
        (case think_once H (st, w) of
           (Raised, st2, w2) \<Rightarrow> (Raised, env_step d st2, w2)
         | (Returned u, st2, w2) \<Rightarrow>
             (if wait_raises H (env_step d st2) then (Raised, env_step d st2, w2)
              else (Returned (), env_step d st2, w2))))"

text \<open>
  The loop thread is live, has left the loop because \<open>alive\<close> was false, or has died of
  an exception that left \<open>_loop\<close>.
\<close>

datatype thread = Live | Exited | Crashed

text \<open>
  A slot of a schedule: what the other threads do before the loop tests \<open>alive\<close>, and
  what they do during the pass that follows.
\<close>

record slot =
  before :: env
  during :: env

definition calm :: slot where
  "calm = \<lparr>before = Quiet, during = Quiet\<rparr>"

definition upon :: "env \<Rightarrow> slot" where
  "upon e = \<lparr>before = e, during = Quiet\<rparr>"

definition amid :: "env \<Rightarrow> slot" where
  "amid e = \<lparr>before = Quiet, during = e\<rparr>"

definition iteration :: "host \<Rightarrow> slot \<Rightarrow> thread \<times> isbe \<times> world \<Rightarrow> thread \<times> isbe \<times> world" where
  "iteration H s x =
     (let (th, st0, w) = x;
          st = env_step (before s) st0 in
      case th of
        Live \<Rightarrow>
          (if \<not> alive st then (Exited, env_step (during s) st, w)
           else (case loop_body H (during s) (st, w) of
                   (Raised, st', w') \<Rightarrow> (Crashed, st', w')
                 | (Returned u, st', w') \<Rightarrow> (Live, st', w')))
      | Exited \<Rightarrow> (Exited, env_step (during s) st, w)
      | Crashed \<Rightarrow> (Crashed, env_step (during s) st, w))"

text \<open>
  \<open>_loop\<close> may run for ever, so a run is taken along a finite schedule, one slot for
  each pass.
\<close>

fun run :: "host \<Rightarrow> slot list \<Rightarrow> thread \<times> isbe \<times> world \<Rightarrow> thread \<times> isbe \<times> world" where
  "run H [] x = x"
| "run H (s # ss) x = run H ss (iteration H s x)"

text \<open>
  \<open>start\<close>: \<open>load\<close> prints the name of the model among other lines, in the calling
  thread; when that raises there is no session. The loop thread then prints the stripped
  seed before it enters the loop, and dies there when that raises.
\<close>

definition start :: "host \<Rightarrow> pystr \<Rightarrow> isbe \<Rightarrow> (thread \<times> isbe \<times> world) option" where
  "start H m st =
     (let w = \<lparr>calls = [], slept = 0, log_file = []\<rparr> in
      if \<not> written H w [m] then None
      else
        (let st1 = (load m st)\<lparr>alive := True\<rparr> in
         Some (if encodable (py_strip (seed_text st1)) then Live else Crashed, st1, w)))"

text \<open>\<open>self._response_text or "(...)"\<close> at the end of \<open>speak\<close>.\<close>

definition speak_return :: "isbe \<Rightarrow> pystr" where
  "speak_return st =
     (case response_text st of
        None \<Rightarrow> NO_RESPONSE
      | Some r \<Rightarrow> if r = [] then NO_RESPONSE else r)"

text \<open>
  The wait of \<open>speak\<close> on the response event, with \<open>r\<close> seconds left of its timeout. The
  schedule gives the passes of the loop from here on, each with the seconds it takes;
  the response event can only be set at the end of a pass. When the pass under way takes
  longer than the time left, or when no pass is left, the wait times out and \<open>speak\<close>
  returns what \<open>_response_text\<close> holds at that moment; when a pass ends in time with the
  response event set, \<open>speak\<close> returns what \<open>_response_text\<close> holds then.
\<close>

fun await ::
    "host \<Rightarrow> nat \<Rightarrow> (slot \<times> nat) list \<Rightarrow> thread \<times> isbe \<times> world \<Rightarrow> pystr \<times> thread \<times> isbe \<times> world" where
  "await H r [] x = (speak_return (fst (snd x)), x)"
| "await H r ((s, secs) # ss) x =
     (if r < secs then (speak_return (fst (snd x)), iteration H s x)
      else
        (let x' = iteration H s x in
         if response_event (fst (snd x')) then (speak_return (fst (snd x')), x')
         else await H (r - secs) ss x'))"

text \<open>
  \<open>speak\<close> called while the loop is between two passes: the three assignments, then the
  wait with its timeout of 300 seconds.
\<close>

definition speak ::
    "host \<Rightarrow> pystr \<Rightarrow> (slot \<times> nat) list \<Rightarrow> thread \<times> isbe \<times> world \<Rightarrow> pystr \<times> thread \<times> isbe \<times> world" where
  "speak H message sched x =
     (let (th, st, w) = x in await H 300 sched (th, env_step (Submit message) st, w))"

text \<open>
  \<open>speak\<close> called while a pass is under way that has \<open>secs\<close> seconds left: the three
  assignments fall into that pass.
\<close>

definition speak_during ::
    "host \<Rightarrow> pystr \<Rightarrow> nat \<Rightarrow> (slot \<times> nat) list \<Rightarrow> thread \<times> isbe \<times> world
       \<Rightarrow> pystr \<times> thread \<times> isbe \<times> world" where
  "speak_during H message secs sched x = await H 300 ((amid (Submit message), secs) # sched) x"

section \<open>Names for the intermediate states of a turn\<close>

text \<open>The session of a think turn after the two counters (line 287) and after the
  append (line 293), \<open>thinking\<close> still set.\<close>

definition counted :: "isbe \<Rightarrow> int \<Rightarrow> isbe" where
  "counted st k =
     st\<lparr>thinking := True, thought_count := thought_count st + 1,
        total_tokens_generated := total_tokens_generated st + k\<rparr>"

definition appended :: "isbe \<Rightarrow> pystr \<Rightarrow> int \<Rightarrow> isbe" where
  "appended st t k =
     st\<lparr>thinking := True, thought_count := thought_count st + 1,
        total_tokens_generated := total_tokens_generated st + k,
        context_text := context_text st @ py_strip t @ NL\<rparr>"

text \<open>The prompt of a dialog turn (line 352) and the session right after its append
  (line 357).\<close>

definition dialog_context :: "isbe \<Rightarrow> pystr option \<Rightarrow> pystr" where
  "dialog_context st message = context_text st @ HUMAN_VOICE @ py_format message @ RESPONSE_CUE"

definition replied :: "isbe \<Rightarrow> pystr option \<Rightarrow> pystr \<Rightarrow> isbe" where
  "replied st message t =
     st\<lparr>thinking := True, context_text := dialog_context st message @ py_strip t @ NL\<rparr>"

text \<open>The requests of one \<open>_generate\<close> call: to the completion endpoint and, when that
  one raised, to the chat endpoint.\<close>

definition requests_of :: "host \<Rightarrow> isbe \<Rightarrow> pystr \<Rightarrow> int \<Rightarrow> rat \<Rightarrow> world \<Rightarrow> request list" where
  "requests_of H st p mt temp w =
     (case answer H (now w) (payload st Completions p mt temp) of
        Reply t k \<Rightarrow> [payload st Completions p mt temp]
      | Fail \<Rightarrow> [payload st Completions p mt temp, payload st ChatCompletions p mt temp])"

text \<open>The world when the reply of a think turn, or of a dialog turn, has come in, and
  the world after the log line of the turn.\<close>

definition thought_world :: "host \<Rightarrow> isbe \<Rightarrow> world \<Rightarrow> world" where
  "thought_world H st w = snd (generate H st (context_text st) 256 0.85 w)"

definition dialog_world :: "host \<Rightarrow> isbe \<Rightarrow> pystr option \<Rightarrow> world \<Rightarrow> world" where
  "dialog_world H st message w = snd (generate H st (dialog_context st message) 512 0.7 w)"

definition after_thought :: "host \<Rightarrow> isbe \<Rightarrow> world \<Rightarrow> pystr \<Rightarrow> int \<Rightarrow> world" where
  "after_thought H st w t k =
     log_event Thought (py_strip t) (ThoughtMeta k) (appended st t k) (thought_world H st w)"

definition after_reply :: "host \<Rightarrow> isbe \<Rightarrow> pystr option \<Rightarrow> world \<Rightarrow> pystr \<Rightarrow> world" where
  "after_reply H st message w t =
     log_event Dialog (py_strip t) (DialogMeta message) (replied st message t)
       (dialog_world H st message w)"

text \<open>A result with another value of \<open>max_context_chars\<close>.\<close>

definition with_max :: "int \<Rightarrow> 'a \<times> isbe \<times> world \<Rightarrow> 'a \<times> isbe \<times> world" where
  "with_max m x = (case x of (r, st, w) \<Rightarrow> (r, st\<lparr>max_context_chars := m\<rparr>, w))"

text \<open>The fields that no turn assigns: \<open>_think_once\<close>, \<open>_compress\<close> and
  \<open>_respond_to_human\<close> write only \<open>thinking\<close>, the three counters and the context.\<close>

definition untouched :: "isbe \<Rightarrow> isbe \<Rightarrow> bool" where
  "untouched st st' \<longleftrightarrow>
     thought_interval st' = thought_interval st \<and>
     max_context_chars st' = max_context_chars st \<and>
     compress_at_chars st' = compress_at_chars st \<and>
     alive st' = alive st \<and>
     human_input st' = human_input st \<and>
     human_event st' = human_event st \<and>
     response_text st' = response_text st \<and>
     response_event st' = response_event st \<and>
     seed_text st' = seed_text st \<and>
     tool_definitions st' = tool_definitions st \<and>
     model_name st' = model_name st"

text \<open>The session as \<open>_loop\<close> hands it to \<open>_respond_to_human\<close> for a message submitted
  by \<open>speak\<close>: the message stored, the response event cleared, the human event set by
  \<open>speak\<close> and cleared again by the loop.\<close>

definition taken :: "pystr \<Rightarrow> isbe \<Rightarrow> isbe" where
  "taken message st = (env_step (Submit message) st)\<lparr>human_event := False\<rparr>"

section \<open>Concrete sessions and mocked hosts\<close>

text \<open>A mocked host: the backend answers the requests in order from a script and raises
  once the script is used up; output always succeeds; the clock always advances;
  \<open>threading.TIMEOUT_MAX\<close> is that of a 64-bit Linux.\<close>

definition mock :: "reply list \<Rightarrow> host" where
  "mock rs =
     \<lparr> answer = (\<lambda>k rq. if k < length rs then rs ! k else Fail),
       io_ok = (\<lambda>n. True), elapsed_pos = (\<lambda>n. True), timeout_max = 9223372036 \<rparr>"

text \<open>A session with a seed of three characters and the compression trigger at 50, as
  \<open>start\<close> leaves it.\<close>

definition demo_seed :: pystr where
  "demo_seed = ascii ''XYZ''"

definition demo_isbe :: isbe where
  "demo_isbe =
     (load (ascii ''m'') (ISBE_init (Fin 0) 6000 50 (ascii ''default'') (Some demo_seed)))\<lparr>alive := True\<rparr>"

definition demo_world :: world where
  "demo_world = \<lparr>calls = [], slept = 0, log_file = []\<rparr>"

text \<open>The demo session with the interjection \<open>hello\<close> pending.\<close>

definition demo_pending :: isbe where
  "demo_pending = env_step (Submit (ascii ''hello'')) demo_isbe"

text \<open>A seed with a tool section of three lines, followed by two characters of body, and
  the session started from it.\<close>

definition tool_seed :: pystr where
  "tool_seed =
     SECTION_HEADING @ NL @ ascii ''- [TOOL:ask:q]'' @ NL @ END_MARK_B @ NL @ NL @ ascii ''go''"

definition tool_isbe :: isbe where
  "tool_isbe =
     (load (ascii ''m'') (ISBE_init (Fin 0) 6000 50 (ascii ''default'') (Some tool_seed)))\<lparr>alive := True\<rparr>"



text \<open>The mocked reply of the scenario, sixty times the letter \<open>a\<close>, and a summary of 24
  letters.\<close>

definition sixty :: pystr where
  "sixty = replicate 60 0x61"

definition summary24 :: pystr where
  "summary24 = replicate 24 0x62"

text \<open>The demo session with an infinite thought interval (\<open>--interval inf\<close>).\<close>

definition endless_isbe :: isbe where
  "endless_isbe = demo_isbe\<lparr>thought_interval := PosInf\<rparr>"

text \<open>A reply of sixty characters whose last one is a lone surrogate.\<close>

definition sixty_surrogate :: pystr where
  "sixty_surrogate = replicate 59 0x61 @ [0xD800]"

text \<open>Two mocked hosts whose backend raises on the first think call (both endpoints) and
  answers the second: one with blanks only, one with the text \<open>ok\<close>.\<close>

definition flaky_blank :: host where
  "flaky_blank = mock [Fail, Fail, Reply (ascii ''  '') 3]"

definition flaky_ok :: host where
  "flaky_ok = mock [Fail, Fail, Reply (ascii ''ok'') 3]"

section \<open>How the turns compute\<close>

lemma generate_model_name:
  assumes "model_name st' = model_name st"
  shows "generate H st' p mt temp w = generate H st p mt temp w"
proof -
  have same: "payload st' e p mt temp = payload st e p mt temp" for e
    using assms by (simp add: payload_def)
  show ?thesis
    unfolding generate_def complete_def chat_def same by (rule refl)
qed

lemma requests_of_model_name:
  "model_name st' = model_name st \<Longrightarrow> requests_of H st' p mt temp w = requests_of H st p mt temp w"
  by (simp add: requests_of_def payload_def split: reply.splits)

lemma generate_calls:
  "calls (snd (generate H st p mt temp w)) = calls w @ requests_of H st p mt temp w"
  by (simp add: generate_def complete_def chat_def post_def requests_of_def now_def
      split: reply.splits)

lemma generate_slept: "slept (snd (generate H st p mt temp w)) = slept w"
  by (simp add: generate_def complete_def chat_def post_def split: reply.splits)

lemma generate_log_file: "log_file (snd (generate H st p mt temp w)) = log_file w"
  by (simp add: generate_def complete_def chat_def post_def split: reply.splits)

lemma generate_fst:
  "fst (generate H st p mt temp w) =
     (case answer H (now w) (payload st Completions p mt temp) of
        Reply t k \<Rightarrow> Reply t k
      | Fail \<Rightarrow> answer H (Suc (now w)) (payload st ChatCompletions p mt temp))"
  by (simp add: generate_def complete_def chat_def post_def now_def split: reply.splits)

lemma log_event_calls: "calls (log_event k c m st w) = calls w"
  by (simp add: log_event_def)

lemma log_event_now: "now (log_event k c m st w) = now w"
  by (simp add: log_event_def now_def)

lemma log_event_slept: "slept (log_event k c m st w) = slept w"
  by (simp add: log_event_def)

lemma requests_of_params:
  "requests_of H st p mt temp w \<noteq> [] \<and>
   list_all (\<lambda>rq. max_tokens rq = mt \<and> temperature rq = temp) (requests_of H st p mt temp w)"
  by (simp add: requests_of_def payload_def split: reply.splits)

lemma requests_of_budget:
  "list_all (\<lambda>rq. max_tokens rq = mt) (requests_of H st p mt temp w)"
  by (simp add: requests_of_def payload_def split: reply.splits)

text \<open>The ways through \<open>_compress\<close>.\<close>

lemma compress_blocked:
  "\<not> io_ok H (now w) \<Longrightarrow>
   compress H (st, w) = (Raised, st\<lparr>compression_count := compression_count st + 1\<rparr>, w)"
  by (simp add: compress_def Let_def)

lemma compress_Raised:
  "io_ok H (now w) \<Longrightarrow>
   generate H st (compress_prompt (context_text st)) 300 0.5 w = (Fail, w1) \<Longrightarrow>
   compress H (st, w) = (Raised, st\<lparr>compression_count := compression_count st + 1\<rparr>, w1)"
  by (simp add: compress_def Let_def
      generate_model_name [of "st\<lparr>compression_count := compression_count st + 1\<rparr>" st])

lemma compress_Reply:
  "io_ok H (now w) \<Longrightarrow>
   generate H st (compress_prompt (context_text st)) 300 0.5 w = (Reply t k, w1) \<Longrightarrow>
   compress H (st, w) =
     (if context_text st = [] \<or> \<not> written H w1 [py_strip t] then
        (Raised,
         st\<lparr>compression_count := compression_count st + 1,
            context_text := tool_definitions st @ MEMORY_CORE @ py_strip t @ CONTINUATION_CUE\<rparr>,
         w1)
      else
        (Returned (),
         st\<lparr>compression_count := compression_count st + 1,
            context_text := tool_definitions st @ MEMORY_CORE @ py_strip t @ CONTINUATION_CUE\<rparr>,
         log_event Compress (py_strip t)
           (CompressMeta (length (context_text st))
              (length (tool_definitions st @ MEMORY_CORE @ py_strip t @ CONTINUATION_CUE))
              (compression_count st + 1))
           (st\<lparr>compression_count := compression_count st + 1,
              context_text := tool_definitions st @ MEMORY_CORE @ py_strip t @ CONTINUATION_CUE\<rparr>)
           w1))"
  by (simp add: compress_def Let_def
      generate_model_name [of "st\<lparr>compression_count := compression_count st + 1\<rparr>" st])

lemma compress_cases:
  obtains
    (blocked) "\<not> io_ok H (now w)"
      "compress H (st, w) = (Raised, st\<lparr>compression_count := compression_count st + 1\<rparr>, w)"
  | (failed) w1 where "io_ok H (now w)"
      "generate H st (compress_prompt (context_text st)) 300 0.5 w = (Fail, w1)"
      "compress H (st, w) = (Raised, st\<lparr>compression_count := compression_count st + 1\<rparr>, w1)"
  | (spoiled) t k w1 where "io_ok H (now w)"
      "generate H st (compress_prompt (context_text st)) 300 0.5 w = (Reply t k, w1)"
      "context_text st = [] \<or> \<not> written H w1 [py_strip t]"
      "compress H (st, w) =
        (Raised,
         st\<lparr>compression_count := compression_count st + 1,
            context_text := tool_definitions st @ MEMORY_CORE @ py_strip t @ CONTINUATION_CUE\<rparr>,
         w1)"
  | (finished) t k w1 where "io_ok H (now w)"
      "generate H st (compress_prompt (context_text st)) 300 0.5 w = (Reply t k, w1)"
      "context_text st \<noteq> []" "written H w1 [py_strip t]"
      "compress H (st, w) =
        (Returned (),
         st\<lparr>compression_count := compression_count st + 1,
            context_text := tool_definitions st @ MEMORY_CORE @ py_strip t @ CONTINUATION_CUE\<rparr>,
         log_event Compress (py_strip t)
           (CompressMeta (length (context_text st))
              (length (tool_definitions st @ MEMORY_CORE @ py_strip t @ CONTINUATION_CUE))
              (compression_count st + 1))
           (st\<lparr>compression_count := compression_count st + 1,
              context_text := tool_definitions st @ MEMORY_CORE @ py_strip t @ CONTINUATION_CUE\<rparr>)
           w1)"
proof (cases "io_ok H (now w)")
  case False
  then show ?thesis by (intro blocked) (simp_all add: compress_blocked)
next
  case io: True
  show ?thesis
  proof (cases "generate H st (compress_prompt (context_text st)) 300 0.5 w")
    case (Pair r w1)
    show ?thesis
    proof (cases r)
      case Fail
      with Pair io show ?thesis by (intro failed [of w1]) (simp_all add: compress_Raised)
    next
      case (Reply t k)
      show ?thesis
      proof (cases "context_text st = [] \<or> \<not> written H w1 [py_strip t]")
        case True
        with Pair Reply io show ?thesis
          by (intro spoiled [of t k w1]) (simp_all add: compress_Reply)
      next
        case False
        with Pair Reply io show ?thesis
          by (intro finished [of t k w1]) (simp_all add: compress_Reply)
      qed
    qed
  qed
qed

lemma compress_untouched: "untouched st (fst (snd (compress H (st, w))))"
  by (cases rule: compress_cases [of H w st]) (simp_all add: untouched_def)

lemma compress_thought_count:
  "thought_count (fst (snd (compress H (st, w)))) = thought_count st"
  by (cases rule: compress_cases [of H w st]) simp_all

lemma compress_compression_count:
  "compression_count (fst (snd (compress H (st, w)))) = compression_count st + 1"
  by (cases rule: compress_cases [of H w st]) simp_all

lemma compress_calls:
  "calls (snd (snd (compress H (st, w)))) =
     calls w @ (if io_ok H (now w) then requests_of H st (compress_prompt (context_text st)) 300 0.5 w
                else [])"
proof (cases rule: compress_cases [of H w st])
  case blocked
  then show ?thesis by simp
next
  case (failed w1)
  then show ?thesis
    using generate_calls [of H st "compress_prompt (context_text st)" 300 "1/2" w] by simp
next
  case (spoiled t k w1)
  then show ?thesis
    using generate_calls [of H st "compress_prompt (context_text st)" 300 "1/2" w] by simp
next
  case (finished t k w1)
  then show ?thesis
    using generate_calls [of H st "compress_prompt (context_text st)" 300 "1/2" w]
    by (simp add: log_event_calls)
qed

lemma compress_slept: "slept (snd (snd (compress H (st, w)))) = slept w"
proof (cases rule: compress_cases [of H w st])
  case blocked
  then show ?thesis by simp
next
  case (failed w1)
  then show ?thesis
    using generate_slept [of H st "compress_prompt (context_text st)" 300 "1/2" w] by simp
next
  case (spoiled t k w1)
  then show ?thesis
    using generate_slept [of H st "compress_prompt (context_text st)" 300 "1/2" w] by simp
next
  case (finished t k w1)
  then show ?thesis
    using generate_slept [of H st "compress_prompt (context_text st)" 300 "1/2" w]
    by (simp add: log_event_slept)
qed


lemma compress_Returned_context:
  assumes "fst (compress H (st, w)) = Returned ()"
  shows "\<exists>s. context_text (fst (snd (compress H (st, w)))) =
               tool_definitions st @ MEMORY_CORE @ s @ CONTINUATION_CUE"
  using assms by (cases rule: compress_cases [of H w st]) simp_all

lemma compress_replied_context:
  assumes "io_ok H (now w)"
    and "fst (generate H st (compress_prompt (context_text st)) 300 0.5 w) = Reply t k"
  shows "context_text (fst (snd (compress H (st, w)))) =
           tool_definitions st @ MEMORY_CORE @ py_strip t @ CONTINUATION_CUE"
  using assms by (cases rule: compress_cases [of H w st]) simp_all

text \<open>\<open>_think_once\<close> and \<open>_respond_to_human\<close> in terms of the named intermediate states.\<close>

lemma think_once_unfold:
  "think_once H (st, w) =
     (case fst (generate H st (context_text st) 256 0.85 w) of
        Fail \<Rightarrow> caught H (st\<lparr>thinking := True\<rparr>, thought_world H st w)
      | Reply t k \<Rightarrow>
          if py_strip t = [] then (Returned (), st\<lparr>thinking := False\<rparr>, thought_world H st w)
          else if elapsed_pos H (now (thought_world H st w)) \<and> float_overflow k then
            caught H (counted st k, thought_world H st w)
          else if \<not> written H (thought_world H st w) [py_strip t] then
            caught H (appended st t k, thought_world H st w)
          else if compress_at_chars st < int (length (context_text st @ py_strip t @ NL)) then
            (case compress H (appended st t k, after_thought H st w t k) of
               (Returned u, st4, w4) \<Rightarrow> (Returned (), st4\<lparr>thinking := False\<rparr>, w4)
             | (Raised, st4, w4) \<Rightarrow> caught H (st4, w4))
          else (Returned (), (appended st t k)\<lparr>thinking := False\<rparr>, after_thought H st w t k))"
proof (cases "generate H st (context_text st) 256 0.85 w")
  case (Pair r w1)
  then have g: "generate H (st\<lparr>thinking := True\<rparr>) (context_text st) 256 0.85 w = (r, w1)"
    by (simp add: generate_model_name [of "st\<lparr>thinking := True\<rparr>" st])
  show ?thesis
  proof (cases r)
    case Fail
    with Pair g show ?thesis
      by (simp add: think_once_def thought_world_def)
  next
    case (Reply t k)
    with Pair g show ?thesis
      by (simp add: think_once_def thought_world_def after_thought_def counted_def appended_def
          Let_def)
  qed
qed

lemma respond_unfold:
  "respond_to_human H m (st, w) =
     (case fst (generate H st (dialog_context st m) 512 0.7 w) of
        Fail \<Rightarrow> (Raised, st\<lparr>thinking := False\<rparr>, dialog_world H st m w)
      | Reply t k \<Rightarrow>
          if \<not> written H (dialog_world H st m w) [py_strip t, py_format m] then
            (Raised, (replied st m t)\<lparr>thinking := False\<rparr>, dialog_world H st m w)
          else if compress_at_chars st < int (length (dialog_context st m @ py_strip t @ NL)) then
            (case compress H (replied st m t, after_reply H st m w t) of
               (Returned u, st3, w3) \<Rightarrow> (Returned (py_strip t), st3\<lparr>thinking := False\<rparr>, w3)
             | (Raised, st3, w3) \<Rightarrow> (Raised, st3\<lparr>thinking := False\<rparr>, w3))
          else (Returned (py_strip t), (replied st m t)\<lparr>thinking := False\<rparr>, after_reply H st m w t))"
proof (cases "generate H st (dialog_context st m) 512 0.7 w")
  case (Pair r w1)
  then have g: "generate H (st\<lparr>thinking := True\<rparr>)
      (context_text st @ HUMAN_VOICE @ py_format m @ RESPONSE_CUE) 512 0.7 w = (r, w1)"
    by (simp add: generate_model_name [of "st\<lparr>thinking := True\<rparr>" st] dialog_context_def)
  show ?thesis
  proof (cases r)
    case Fail
    with Pair g show ?thesis
      by (simp add: respond_to_human_def dialog_world_def)
  next
    case (Reply t k)
    with Pair g show ?thesis
      by (simp add: respond_to_human_def dialog_world_def after_reply_def replied_def
          dialog_context_def Let_def)
  qed
qed

lemma caught_state: "fst (snd (caught H (st, w))) = st\<lparr>thinking := False\<rparr>"
  by (simp add: caught_def)

lemma caught_calls: "calls (snd (snd (caught H (st, w)))) = calls w"
  by (simp add: caught_def)

lemma caught_outcome: "fst (caught H (st, w)) = (if io_ok H (now w) then Returned () else Raised)"
  by (simp add: caught_def)

lemma caught_slept:
  "slept (snd (snd (caught H (st, w)))) = (if io_ok H (now w) then slept w + 2 else slept w)"
  by (simp add: caught_def)

lemma thought_world_calls:
  "calls (thought_world H st w) = calls w @ requests_of H st (context_text st) 256 0.85 w"
  by (simp add: thought_world_def generate_calls)

lemma dialog_world_calls:
  "calls (dialog_world H st m w) = calls w @ requests_of H st (dialog_context st m) 512 0.7 w"
  by (simp add: dialog_world_def generate_calls)

lemma after_thought_calls: "calls (after_thought H st w t k) = calls (thought_world H st w)"
  by (simp add: after_thought_def log_event_calls)

lemma after_thought_now: "now (after_thought H st w t k) = now (thought_world H st w)"
  by (simp add: after_thought_def log_event_now)

lemma after_reply_calls: "calls (after_reply H st m w t) = calls (dialog_world H st m w)"
  by (simp add: after_reply_def log_event_calls)

lemma after_reply_now: "now (after_reply H st m w t) = now (dialog_world H st m w)"
  by (simp add: after_reply_def log_event_now)

lemma untouched_refl: "untouched st st"
  by (simp add: untouched_def)

lemma untouched_trans: "untouched a b \<Longrightarrow> untouched b c \<Longrightarrow> untouched a c"
  by (simp add: untouched_def)

lemma untouched_thinking: "untouched st st' \<Longrightarrow> untouched st (st'\<lparr>thinking := b\<rparr>)"
  by (simp add: untouched_def)

lemma untouched_counted: "untouched st (counted st k)"
  by (simp add: untouched_def counted_def)

lemma untouched_appended: "untouched st (appended st t k)"
  by (simp add: untouched_def appended_def)

lemma untouched_replied: "untouched st (replied st message t)"
  by (simp add: untouched_def replied_def)

text \<open>The state a think turn ends in is one of four, \<open>thinking\<close> cleared.\<close>

lemma think_once_state:
  "fst (snd (think_once H (st, w))) = st\<lparr>thinking := False\<rparr> \<or>
   (\<exists>t k. fst (generate H st (context_text st) 256 0.85 w) = Reply t k \<and> py_strip t \<noteq> [] \<and>
      (fst (snd (think_once H (st, w))) = (counted st k)\<lparr>thinking := False\<rparr> \<or>
       fst (snd (think_once H (st, w))) = (appended st t k)\<lparr>thinking := False\<rparr> \<or>
       fst (snd (think_once H (st, w))) =
         (fst (snd (compress H (appended st t k, after_thought H st w t k))))\<lparr>thinking := False\<rparr>))"
  by (auto simp: think_once_unfold caught_def split: reply.splits prod.splits outcome.splits)

lemma think_once_untouched: "untouched st (fst (snd (think_once H (st, w))))"
proof -
  have c: "untouched st ((fst (snd (compress H (appended st t k, v))))\<lparr>thinking := False\<rparr>)" for t k v
    by (intro untouched_thinking untouched_trans [OF untouched_appended compress_untouched])
  from think_once_state [of H st w] show ?thesis
    by (auto simp: c untouched_thinking untouched_refl untouched_counted untouched_appended)
qed

lemma think_once_failed:
  assumes "fst (generate H st (context_text st) 256 0.85 w) = Fail"
  shows "think_once H (st, w) = caught H (st\<lparr>thinking := True\<rparr>, thought_world H st w)"
  using assms by (simp add: think_once_unfold)

lemma think_once_plain:
  assumes "fst (generate H st (context_text st) 256 0.85 w) = Reply t k"
    and "py_strip t \<noteq> []"
    and "\<not> (elapsed_pos H (now (thought_world H st w)) \<and> float_overflow k)"
    and "written H (thought_world H st w) [py_strip t]"
    and "int (length (context_text st @ py_strip t @ NL)) \<le> compress_at_chars st"
  shows "think_once H (st, w) =
           (Returned (), (appended st t k)\<lparr>thinking := False\<rparr>, after_thought H st w t k)"
  using assms by (auto simp: think_once_unfold)

lemma think_once_appends:
  assumes "fst (generate H st (context_text st) 256 0.85 w) = Reply t k"
    and "py_strip t \<noteq> []"
    and "\<not> (elapsed_pos H (now (thought_world H st w)) \<and> float_overflow k)"
    and "int (length (context_text st @ py_strip t @ NL)) \<le> compress_at_chars st"
  shows "fst (snd (think_once H (st, w))) = (appended st t k)\<lparr>thinking := False\<rparr>"
  using assms by (auto simp: think_once_unfold caught_def)

lemma think_once_compressed:
  assumes "fst (generate H st (context_text st) 256 0.85 w) = Reply t k"
    and "py_strip t \<noteq> []"
    and "\<not> (elapsed_pos H (now (thought_world H st w)) \<and> float_overflow k)"
    and "written H (thought_world H st w) [py_strip t]"
    and "compress_at_chars st < int (length (context_text st @ py_strip t @ NL))"
  shows "fst (snd (think_once H (st, w))) =
           (fst (snd (compress H (appended st t k, after_thought H st w t k))))\<lparr>thinking := False\<rparr>"
    and "calls (snd (snd (think_once H (st, w)))) =
           calls (snd (snd (compress H (appended st t k, after_thought H st w t k))))"
  using assms
  by (auto simp: think_once_unfold caught_def split: prod.splits outcome.splits)

lemma think_once_thought_count:
  assumes "fst (generate H st (context_text st) 256 0.85 w) = Reply t k" and "py_strip t \<noteq> []"
  shows "thought_count (fst (snd (think_once H (st, w)))) = thought_count st + 1"
proof -
  have c: "thought_count (fst (snd (compress H (appended st t k, v)))) = thought_count st + 1" for v
    by (simp add: compress_thought_count) (simp add: appended_def)
  have d: "thought_count (counted st k) = thought_count st + 1"
    "thought_count (appended st t k) = thought_count st + 1"
    by (simp_all add: counted_def appended_def)
  from assms have "fst (snd (think_once H (st, w))) = (counted st k)\<lparr>thinking := False\<rparr> \<or>
       fst (snd (think_once H (st, w))) = (appended st t k)\<lparr>thinking := False\<rparr> \<or>
       fst (snd (think_once H (st, w))) =
         (fst (snd (compress H (appended st t k, after_thought H st w t k))))\<lparr>thinking := False\<rparr>"
    by (auto simp: think_once_unfold caught_def split: prod.splits outcome.splits)
  then show ?thesis
    by (auto simp: c d)
qed

lemma think_once_returns:
  assumes "\<And>n. io_ok H n"
  shows "fst (think_once H (st, w)) = Returned ()"
  using assms
  by (auto simp: think_once_unfold caught_def split: reply.splits prod.splits outcome.splits)

lemma think_once_calls:
  "prefix (calls w @ requests_of H st (context_text st) 256 0.85 w)
     (calls (snd (snd (think_once H (st, w)))))"
proof -
  have c: "prefix (calls (thought_world H st w))
             (calls (snd (snd (compress H (appended st t k, after_thought H st w t k)))))" for t k
    by (simp add: compress_calls after_thought_calls)
  have d: "calls (snd (snd (caught H (s, v)))) = calls v" for s v
    by (rule caught_calls)
  have e: "prefix (calls (thought_world H st w)) (calls v)"
    if "compress H (appended st t k, after_thought H st w t k) = (r, s, v)" for t k r s v
    using c [of t k] that by simp
  show ?thesis
    unfolding thought_world_calls [symmetric]
    by (auto simp: think_once_unfold caught_def after_thought_calls dest: e
        split: reply.splits prod.splits outcome.splits)
qed

lemma crossing_think_compresses:
  assumes "fst (generate H st (context_text st) 256 0.85 w) = Reply t k"
    and "py_strip t \<noteq> []"
    and "\<not> (elapsed_pos H (now (thought_world H st w)) \<and> float_overflow k)"
    and "written H (thought_world H st w) [py_strip t]"
    and "compress_at_chars st < int (length (context_text st @ py_strip t @ NL))"
  shows "compression_count (fst (snd (think_once H (st, w)))) = compression_count st + 1"
    and "suffix (requests_of H (appended st t k) (compress_prompt (context_text st @ py_strip t @ NL))
                300 0.5 (after_thought H st w t k))
           (calls (snd (snd (think_once H (st, w)))))"
proof -
  have c: "context_text (appended st t k) = context_text st @ py_strip t @ NL"
    by (simp add: appended_def)
  have io: "io_ok H (now (after_thought H st w t k))"
    using assms(4) by (simp add: after_thought_now written_def)
  show "compression_count (fst (snd (think_once H (st, w)))) = compression_count st + 1"
    unfolding think_once_compressed(1) [OF assms]
    by (simp add: compress_compression_count) (simp add: appended_def)
  show "suffix (requests_of H (appended st t k) (compress_prompt (context_text st @ py_strip t @ NL))
                300 0.5 (after_thought H st w t k))
           (calls (snd (snd (think_once H (st, w)))))"
    unfolding think_once_compressed(2) [OF assms] compress_calls c
    using io by (simp add: suffix_def)
qed

text \<open>The same for the dialog turn.\<close>

lemma respond_state:
  "fst (snd (respond_to_human H m (st, w))) = st\<lparr>thinking := False\<rparr> \<or>
   (\<exists>t k. fst (generate H st (dialog_context st m) 512 0.7 w) = Reply t k \<and>
      (fst (snd (respond_to_human H m (st, w))) = (replied st m t)\<lparr>thinking := False\<rparr> \<or>
       fst (snd (respond_to_human H m (st, w))) =
         (fst (snd (compress H (replied st m t, after_reply H st m w t))))\<lparr>thinking := False\<rparr>))"
  by (auto simp: respond_unfold split: reply.splits prod.splits outcome.splits)

lemma respond_untouched: "untouched st (fst (snd (respond_to_human H m (st, w))))"
proof -
  have c: "untouched st ((fst (snd (compress H (replied st m t, v))))\<lparr>thinking := False\<rparr>)" for t v
    by (intro untouched_thinking untouched_trans [OF untouched_replied compress_untouched])
  from respond_state [of H m st w] show ?thesis
    by (auto simp: c untouched_thinking untouched_refl untouched_replied)
qed

lemma respond_thought_count:
  "thought_count (fst (snd (respond_to_human H m (st, w)))) = thought_count st"
proof -
  have c: "thought_count (fst (snd (compress H (replied st m t, v)))) = thought_count st" for t v
    by (simp add: compress_thought_count) (simp add: replied_def)
  have d: "thought_count (replied st m t) = thought_count st" for t
    by (simp add: replied_def)
  from respond_state [of H m st w] show ?thesis
    by (auto simp: c d)
qed

lemma respond_failed:
  assumes "fst (generate H st (dialog_context st m) 512 0.7 w) = Fail"
  shows "respond_to_human H m (st, w) = (Raised, st\<lparr>thinking := False\<rparr>, dialog_world H st m w)"
  using assms by (simp add: respond_unfold)

lemma respond_compressed:
  assumes "fst (generate H st (dialog_context st m) 512 0.7 w) = Reply t k"
    and "written H (dialog_world H st m w) [py_strip t, py_format m]"
    and "compress_at_chars st < int (length (dialog_context st m @ py_strip t @ NL))"
  shows "fst (snd (respond_to_human H m (st, w))) =
           (fst (snd (compress H (replied st m t, after_reply H st m w t))))\<lparr>thinking := False\<rparr>"
    and "calls (snd (snd (respond_to_human H m (st, w)))) =
           calls (snd (snd (compress H (replied st m t, after_reply H st m w t))))"
  using assms
  by (auto simp: respond_unfold split: prod.splits outcome.splits)

lemma crossing_dialog_compresses:
  assumes "fst (generate H st (dialog_context st m) 512 0.7 w) = Reply t k"
    and "written H (dialog_world H st m w) [py_strip t, py_format m]"
    and "compress_at_chars st < int (length (dialog_context st m @ py_strip t @ NL))"
  shows "compression_count (fst (snd (respond_to_human H m (st, w)))) = compression_count st + 1"
    and "suffix (requests_of H (replied st m t)
                   (compress_prompt (dialog_context st m @ py_strip t @ NL)) 300 0.5
                   (after_reply H st m w t))
           (calls (snd (snd (respond_to_human H m (st, w)))))"
proof -
  have c: "context_text (replied st m t) = dialog_context st m @ py_strip t @ NL"
    by (simp add: replied_def)
  have io: "io_ok H (now (after_reply H st m w t))"
    using assms(2) by (simp add: after_reply_now written_def)
  show "compression_count (fst (snd (respond_to_human H m (st, w)))) = compression_count st + 1"
    unfolding respond_compressed(1) [OF assms]
    by (simp add: compress_compression_count) (simp add: replied_def)
  show "suffix (requests_of H (replied st m t)
                   (compress_prompt (dialog_context st m @ py_strip t @ NL)) 300 0.5
                   (after_reply H st m w t))
           (calls (snd (snd (respond_to_human H m (st, w)))))"
    unfolding respond_compressed(2) [OF assms] compress_calls c
    using io by (simp add: suffix_def)
qed

lemma respond_calls:
  "\<exists>rest. calls (snd (snd (respond_to_human H m (st, w)))) =
      calls w @ requests_of H st (dialog_context st m) 512 0.7 w @ rest \<and>
      list_all (\<lambda>rq. max_tokens rq = 300) rest"
proof -
  have c: "\<exists>rest. calls v = calls (dialog_world H st m w) @ rest \<and>
             list_all (\<lambda>rq. max_tokens rq = 300) rest"
    if "compress H (replied st m t, after_reply H st m w t) = (r, s, v)" for t r s v
  proof -
    have "calls v = calls (dialog_world H st m w) @
        (if io_ok H (now (after_reply H st m w t))
         then requests_of H (replied st m t) (compress_prompt (context_text (replied st m t)))
                300 0.5 (after_reply H st m w t)
         else [])"
      using compress_calls [of H "replied st m t" "after_reply H st m w t"] that
      by (simp add: after_reply_calls)
    then show ?thesis
      using requests_of_budget [of 300 H "replied st m t"
          "compress_prompt (context_text (replied st m t))" "1/2" "after_reply H st m w t"]
      by (auto split: if_splits)
  qed
  show ?thesis
    unfolding dialog_world_calls [symmetric] append_assoc [symmetric]
    by (auto simp: respond_unfold after_reply_calls dest: c
        split: reply.splits prod.splits outcome.splits)
qed

text \<open>One pass of the loop.\<close>

lemma loop_body_dialog:
  "human_event st \<Longrightarrow>
   loop_body H d (st, w) =
     (case respond_to_human H (human_input st) (st\<lparr>human_event := False\<rparr>, w) of
        (Raised, st2, w2) \<Rightarrow> (Raised, env_step d st2, w2)
      | (Returned response, st2, w2) \<Rightarrow>
          (Returned (),
           (env_step d st2)\<lparr>response_text := Some response, response_event := True\<rparr>, w2))"
  by (simp add: loop_body_def Let_def)

lemma loop_body_think:
  "\<not> human_event st \<Longrightarrow>
   loop_body H d (st, w) =
     (case think_once H (st, w) of
        (Raised, st2, w2) \<Rightarrow> (Raised, env_step d st2, w2)
      | (Returned u, st2, w2) \<Rightarrow>
          (if wait_raises H (env_step d st2) then (Raised, env_step d st2, w2)
           else (Returned (), env_step d st2, w2)))"
  by (simp add: loop_body_def Let_def)

lemma iteration_Live:
  "alive (env_step (before s) st) \<Longrightarrow>
   iteration H s (Live, st, w) =
     (case loop_body H (during s) (env_step (before s) st, w) of
        (Raised, st', w') \<Rightarrow> (Crashed, st', w')
      | (Returned u, st', w') \<Rightarrow> (Live, st', w'))"
  by (simp add: iteration_def Let_def)

lemma env_step_Quiet [simp]: "env_step Quiet st = st"
  by (simp add: env_step_def)

lemma calm_simps [simp]: "before calm = Quiet" "during calm = Quiet"
  by (simp_all add: calm_def)

lemma upon_simps [simp]: "before (upon e) = e" "during (upon e) = Quiet"
  by (simp_all add: upon_def)

lemma amid_simps [simp]: "before (amid e) = Quiet" "during (amid e) = e"
  by (simp_all add: amid_def)

text \<open>The concrete sessions, evaluated.\<close>

lemma demo_isbe_eq:
  "demo_isbe =
     \<lparr> thought_interval = Fin 0, max_context_chars = 6000, compress_at_chars = 50, alive = True,
       thinking = False, thought_count = 0, compression_count = 0, total_tokens_generated = 0,
       context_text = [88, 89, 90], human_input = None, human_event = False,
       response_text = None, response_event = False, seed_text = [88, 89, 90],
       tool_definitions = [], model_name = Some [109] \<rparr>"
  by (simp add: demo_isbe_def demo_seed_def load_def ISBE_init_def ascii_def
      extract_tool_definitions_def TOOL_MARK_def startswith_def)

lemma demo_pending_eq:
  "demo_pending =
     \<lparr> thought_interval = Fin 0, max_context_chars = 6000, compress_at_chars = 50, alive = True,
       thinking = False, thought_count = 0, compression_count = 0, total_tokens_generated = 0,
       context_text = [88, 89, 90], human_input = Some [104, 101, 108, 108, 111], human_event = True,
       response_text = None, response_event = False, seed_text = [88, 89, 90],
       tool_definitions = [], model_name = Some [109] \<rparr>"
  by (simp add: demo_pending_def demo_isbe_eq env_step_def ascii_def)

lemmas eval_defs =
  generate_def complete_def chat_def post_def payload_def mock_def log_event_def now_def
  written_def encodable_def caught_def py_strip_def py_isspace_def py_format_def ascii_def
  NL_def Let_def

lemmas loop_defs =
  iteration_def loop_body_def think_once_def respond_to_human_def env_step_def
  wait_raises_def too_long_def HUMAN_VOICE_def RESPONSE_CUE_def

lemmas speak_defs = speak_def speak_during_def speak_return_def

lemma tool_seed_extract:
  "extract_tool_definitions tool_seed =
     SECTION_HEADING @ NL @ ascii ''- [TOOL:ask:q]'' @ NL @ END_MARK_B @ NL @ NL"
  by (simp add: extract_tool_definitions_def tool_seed_def SECTION_HEADING_def SECTION_TITLE_def
      NL_def ascii_def END_MARK_A_def END_MARK_B_def TOOL_MARK_def startswith_def py_strip_def
      py_isspace_def Let_def)

lemma tool_isbe_eq:
  "tool_isbe =
     \<lparr> thought_interval = Fin 0, max_context_chars = 6000, compress_at_chars = 50, alive = True,
       thinking = False, thought_count = 0, compression_count = 0, total_tokens_generated = 0,
       context_text = tool_seed, human_input = None, human_event = False,
       response_text = None, response_event = False, seed_text = tool_seed,
       tool_definitions = SECTION_HEADING @ NL @ ascii ''- [TOOL:ask:q]'' @ NL @ END_MARK_B @ NL @ NL,
       model_name = Some (ascii ''m'') \<rparr>"
proof -
  have "tool_seed \<noteq> []"
    by (simp add: tool_seed_def NL_def)
  then show ?thesis
    by (simp add: tool_isbe_def load_def ISBE_init_def tool_seed_extract)
qed

lemma compress_outcome:
  "fst (compress H (st, w)) = Returned () \<longleftrightarrow>
     io_ok H (now w) \<and> context_text st \<noteq> [] \<and>
     (\<exists>t k. fst (generate H st (compress_prompt (context_text st)) 300 0.5 w) = Reply t k \<and>
        written H (snd (generate H st (compress_prompt (context_text st)) 300 0.5 w)) [py_strip t])"
  by (cases rule: compress_cases [of H w st]) auto

lemma compress_context_nonempty:
  "context_text st \<noteq> [] \<Longrightarrow> context_text (fst (snd (compress H (st, w)))) \<noteq> []"
  by (cases rule: compress_cases [of H w st]) (simp_all add: MEMORY_CORE_def)

text \<open>Another value of \<open>max_context_chars\<close> changes nothing else.\<close>

lemma generate_max:
  "generate H (st\<lparr>max_context_chars := m\<rparr>) p mt temp w = generate H st p mt temp w"
  by (rule generate_model_name) simp

lemma log_event_max:
  "log_event k c x (st\<lparr>max_context_chars := m\<rparr>) w = log_event k c x st w"
  by (simp add: log_event_def)

lemma counted_max:
  "counted (st\<lparr>max_context_chars := m\<rparr>) k = (counted st k)\<lparr>max_context_chars := m\<rparr>"
  by (simp add: counted_def)

lemma appended_max:
  "appended (st\<lparr>max_context_chars := m\<rparr>) t k = (appended st t k)\<lparr>max_context_chars := m\<rparr>"
  by (simp add: appended_def)

lemma dialog_context_max:
  "dialog_context (st\<lparr>max_context_chars := m\<rparr>) msg = dialog_context st msg"
  by (simp add: dialog_context_def)

lemma replied_max:
  "replied (st\<lparr>max_context_chars := m\<rparr>) msg t = (replied st msg t)\<lparr>max_context_chars := m\<rparr>"
  by (simp add: replied_def dialog_context_def)

lemma thought_world_max:
  "thought_world H (st\<lparr>max_context_chars := m\<rparr>) w = thought_world H st w"
  by (simp add: thought_world_def generate_max)

lemma dialog_world_max:
  "dialog_world H (st\<lparr>max_context_chars := m\<rparr>) msg w = dialog_world H st msg w"
  by (simp add: dialog_world_def generate_max dialog_context_max)

lemma after_thought_max:
  "after_thought H (st\<lparr>max_context_chars := m\<rparr>) w t k = after_thought H st w t k"
  by (simp add: after_thought_def thought_world_max appended_max log_event_max)

lemma after_reply_max:
  "after_reply H (st\<lparr>max_context_chars := m\<rparr>) msg w t = after_reply H st msg w t"
  by (simp add: after_reply_def dialog_world_max replied_max log_event_max)

lemma caught_max:
  "caught H (st\<lparr>max_context_chars := m\<rparr>, w) = with_max m (caught H (st, w))"
  by (simp add: caught_def with_max_def)

lemma compress_max:
  "compress H (st\<lparr>max_context_chars := m\<rparr>, w) = with_max m (compress H (st, w))"
proof (cases "io_ok H (now w)")
  case False
  then show ?thesis by (simp add: compress_blocked with_max_def)
next
  case io: True
  show ?thesis
  proof (cases "generate H st (compress_prompt (context_text st)) 300 0.5 w")
    case (Pair r w1)
    then have g: "generate H (st\<lparr>max_context_chars := m\<rparr>)
        (compress_prompt (context_text (st\<lparr>max_context_chars := m\<rparr>))) 300 0.5 w = (r, w1)"
      by (simp add: generate_max)
    show ?thesis
    proof (cases r)
      case Fail
      with Pair g io show ?thesis
        by (simp add: compress_Raised with_max_def)
    next
      case (Reply t k)
      with Pair g io show ?thesis
        by (simp add: compress_Reply with_max_def log_event_def)
    qed
  qed
qed

lemma with_max_cases:
  "(case with_max m x of (r, st, w) \<Rightarrow> f r st w) =
   (case x of (r, st, w) \<Rightarrow> f r (st\<lparr>max_context_chars := m\<rparr>) w)"
  by (simp add: with_max_def split: prod.splits)

lemma think_once_max:
  "think_once H (st\<lparr>max_context_chars := m\<rparr>, w) = with_max m (think_once H (st, w))"
proof -
  have c: "(case compress H ((appended st t k)\<lparr>max_context_chars := m\<rparr>, v) of
              (Returned u, st4, w4) \<Rightarrow> (Returned (), st4\<lparr>thinking := False\<rparr>, w4)
            | (Raised, st4, w4) \<Rightarrow> caught H (st4, w4)) =
           with_max m (case compress H (appended st t k, v) of
              (Returned u, st4, w4) \<Rightarrow> (Returned (), st4\<lparr>thinking := False\<rparr>, w4)
            | (Raised, st4, w4) \<Rightarrow> caught H (st4, w4))" for t k v
    by (simp add: compress_max with_max_def caught_def split: prod.splits outcome.splits)
  have d: "caught H (s\<lparr>max_context_chars := m\<rparr>, v) = with_max m (caught H (s, v))" for s v
    by (rule caught_max)
  have e: "st\<lparr>max_context_chars := m, thinking := b\<rparr> = (st\<lparr>thinking := b\<rparr>)\<lparr>max_context_chars := m\<rparr>" for b
    by simp
  show ?thesis
    unfolding think_once_unfold [of H "st\<lparr>max_context_chars := m\<rparr>" w] think_once_unfold [of H st w]
      generate_max thought_world_max after_thought_max counted_max appended_max e c d
    by (simp add: with_max_def split: reply.splits)
qed

lemma respond_max:
  "respond_to_human H msg (st\<lparr>max_context_chars := m\<rparr>, w) =
     with_max m (respond_to_human H msg (st, w))"
proof -
  have c: "(case compress H ((replied st msg t)\<lparr>max_context_chars := m\<rparr>, v) of
              (Returned u, st3, w3) \<Rightarrow> (Returned (py_strip t), st3\<lparr>thinking := False\<rparr>, w3)
            | (Raised, st3, w3) \<Rightarrow> (Raised, st3\<lparr>thinking := False\<rparr>, w3)) =
           with_max m (case compress H (replied st msg t, v) of
              (Returned u, st3, w3) \<Rightarrow> (Returned (py_strip t), st3\<lparr>thinking := False\<rparr>, w3)
            | (Raised, st3, w3) \<Rightarrow> (Raised, st3\<lparr>thinking := False\<rparr>, w3))" for t v
    by (simp add: compress_max with_max_def split: prod.splits outcome.splits)
  have e: "st\<lparr>max_context_chars := m, thinking := b\<rparr> = (st\<lparr>thinking := b\<rparr>)\<lparr>max_context_chars := m\<rparr>" for b
    by simp
  show ?thesis
    unfolding respond_unfold [of H msg "st\<lparr>max_context_chars := m\<rparr>" w] respond_unfold [of H msg st w]
      generate_max dialog_context_max dialog_world_max after_reply_max replied_max e c
    by (simp add: with_max_def split: reply.splits)
qed

lemma env_step_max:
  "env_step e (st\<lparr>max_context_chars := m\<rparr>) = (env_step e st)\<lparr>max_context_chars := m\<rparr>"
  by (cases e) (simp_all add: env_step_def)

lemma wait_raises_max:
  "wait_raises H (st\<lparr>max_context_chars := m\<rparr>) = wait_raises H st"
  by (simp add: wait_raises_def too_long_def)

lemma loop_body_max:
  "loop_body H d (st\<lparr>max_context_chars := m\<rparr>, w) = with_max m (loop_body H d (st, w))"
proof (cases "human_event st")
  case True
  have "st\<lparr>max_context_chars := m, human_event := False\<rparr> =
        (st\<lparr>human_event := False\<rparr>)\<lparr>max_context_chars := m\<rparr>"
    by simp
  then have "respond_to_human H (human_input st) (st\<lparr>max_context_chars := m, human_event := False\<rparr>, w) =
        with_max m (respond_to_human H (human_input st) (st\<lparr>human_event := False\<rparr>, w))"
    by (simp only: respond_max)
  with True show ?thesis
    by (auto simp: loop_body_dialog with_max_def env_step_max split: prod.splits outcome.splits)
next
  case False
  then show ?thesis
    by (auto simp: loop_body_think think_once_max with_max_def env_step_max wait_raises_max
        split: prod.splits outcome.splits)
qed

lemma iteration_max:
  "iteration H s (th, st\<lparr>max_context_chars := m\<rparr>, w) = with_max m (iteration H s (th, st, w))"
proof (cases th)
  case Live
  show ?thesis
  proof (cases "alive (env_step (before s) st)")
    case True
    with Live show ?thesis
      by (auto simp: iteration_Live loop_body_max with_max_def env_step_max
          split: prod.splits outcome.splits)
  next
    case False
    with Live show ?thesis by (simp add: iteration_def with_max_def env_step_max)
  qed
next
  case Exited
  then show ?thesis by (simp add: iteration_def with_max_def env_step_max)
next
  case Crashed
  then show ?thesis by (simp add: iteration_def with_max_def env_step_max)
qed

lemma iteration_with_max:
  "iteration H s (with_max m x) = with_max m (iteration H s x)"
  by (cases x) (simp add: with_max_def iteration_max)

lemma run_with_max:
  "run H ss (with_max m x) = with_max m (run H ss x)"
  by (induction ss arbitrary: x) (simp_all add: iteration_with_max)

lemma run_max:
  "run H ss (th, st\<lparr>max_context_chars := m\<rparr>, w) = with_max m (run H ss (th, st, w))"
  using run_with_max [of H ss m "(th, st, w)"] by (simp add: with_max_def)

lemma speak_return_max: "speak_return (st\<lparr>max_context_chars := m\<rparr>) = speak_return st"
  by (simp add: speak_return_def)

lemma with_max_state:
  "speak_return (fst (snd (with_max m x))) = speak_return (fst (snd x))"
  "response_event (fst (snd (with_max m x))) = response_event (fst (snd x))"
  by (cases x; simp add: with_max_def speak_return_def)+

lemma await_with_max:
  "await H r sched (with_max m x) =
     (fst (await H r sched x), with_max m (snd (await H r sched x)))"
proof (induction sched arbitrary: r x)
  case Nil
  show ?case by (simp add: with_max_state)
next
  case (Cons a sched)
  obtain s secs where a: "a = (s, secs)" by (cases a)
  show ?case
    unfolding a
    by (simp add: iteration_with_max with_max_state Cons.IH Let_def)
qed

lemma iteration_think:
  assumes "alive st" and "\<not> human_event st"
  shows "iteration H calm (Live, st, w) =
     (case think_once H (st, w) of
        (Raised, st2, w2) \<Rightarrow> (Crashed, st2, w2)
      | (Returned u, st2, w2) \<Rightarrow> if wait_raises H st2 then (Crashed, st2, w2) else (Live, st2, w2))"
  using assms
  by (simp add: iteration_Live loop_body_think split: prod.splits outcome.splits)

lemma too_long_untouched: "untouched st st' \<Longrightarrow> too_long H st' = too_long H st"
  by (simp add: untouched_def too_long_def)

lemma iteration_think_fine:
  assumes "alive st" and "\<not> human_event st" and "\<forall>n. io_ok H n" and "\<not> too_long H st"
  shows "iteration H calm (Live, st, w) =
           (Live, fst (snd (think_once H (st, w))), snd (snd (think_once H (st, w))))"
proof -
  have r: "fst (think_once H (st, w)) = Returned ()"
    using assms(3) by (intro think_once_returns) simp
  have u: "untouched st (fst (snd (think_once H (st, w))))"
    by (rule think_once_untouched)
  then have "\<not> wait_raises H (fst (snd (think_once H (st, w))))"
    using assms(4) by (simp add: wait_raises_def too_long_untouched)
  with r show ?thesis
    by (auto simp: iteration_think [OF assms(1,2)] split: prod.splits outcome.splits)
qed

text \<open>Facts for the scenario of the three-character seed.\<close>

lemma py_in_length: "py_in sub s \<Longrightarrow> length sub \<le> length s"
proof (induction s)
  case Nil
  then show ?case by simp
next
  case (Cons c cs)
  show ?case
  proof (cases "startswith (c # cs) sub")
    case True
    then have "length (take (length sub) (c # cs)) = length sub"
      by (simp add: startswith_def)
    then show ?thesis by (simp add: min_def split: if_splits)
  next
    case False
    with Cons show ?thesis by simp
  qed
qed

lemma extract_short: "length seed < 5 \<Longrightarrow> extract_tool_definitions seed = []"
  using py_in_length [of TOOL_MARK seed]
  by (auto simp: extract_tool_definitions_def TOOL_MARK_def ascii_def)

lemma start_state:
  assumes "seed \<noteq> []"
    and "start H m (ISBE_init iv mc ca name (Some seed)) = Some (th, st, w0)"
  shows "st =
     \<lparr> thought_interval = iv, max_context_chars = mc, compress_at_chars = ca, alive = True,
       thinking = False, thought_count = 0, compression_count = 0, total_tokens_generated = 0,
       context_text = seed, human_input = None, human_event = False,
       response_text = None, response_event = False, seed_text = seed,
       tool_definitions = extract_tool_definitions seed, model_name = Some m \<rparr>"
  using assms by (auto simp: start_def load_def ISBE_init_def Let_def split: if_splits)

lemma rebuilt_length:
  "length (MEMORY_CORE @ s @ CONTINUATION_CUE) = 41 + length s"
  by (simp add: MEMORY_CORE_def CONTINUATION_CUE_def)

lemma dropWhile_keeps: "xs \<noteq> [] \<Longrightarrow> \<not> P (hd xs) \<Longrightarrow> dropWhile P xs = xs"
  by (cases xs) simp_all

lemma py_strip_id:
  assumes "s \<noteq> []" and "\<not> py_isspace (hd s)" and "\<not> py_isspace (last s)"
  shows "py_strip s = s"
proof -
  have "dropWhile py_isspace s = s"
    using assms(1,2) by (rule dropWhile_keeps)
  moreover have "dropWhile py_isspace (rev s) = rev s"
    using assms(1,3) by (intro dropWhile_keeps) (simp_all add: hd_rev)
  ultimately show ?thesis
    by (simp add: py_strip_def)
qed

lemma scenario:
  assumes "length seed = 3"
    and "start H m (ISBE_init iv mc 50 name (Some seed)) = Some (th, st, w0)"
    and "fst (generate H st (context_text st) 256 0.85 w) = Reply t k"
    and "length t = 60" and "py_strip t = t"
    and "\<not> (elapsed_pos H (now (thought_world H st w)) \<and> float_overflow k)"
    and "written H (thought_world H st w) [t]"
  shows "length (context_text (appended st t k)) = 64"
    and "compression_count (fst (snd (think_once H (st, w)))) = 1"
    and "fst (generate H (appended st t k) (compress_prompt (context_text (appended st t k)))
                300 0.5 (after_thought H st w t k)) = Reply u j \<Longrightarrow>
         context_text (fst (snd (think_once H (st, w)))) = MEMORY_CORE @ py_strip u @ CONTINUATION_CUE"
proof -
  have ne: "seed \<noteq> []" using assms(1) by auto
  have st: "st = \<lparr> thought_interval = iv, max_context_chars = mc, compress_at_chars = 50, alive = True,
       thinking = False, thought_count = 0, compression_count = 0, total_tokens_generated = 0,
       context_text = seed, human_input = None, human_event = False,
       response_text = None, response_event = False, seed_text = seed,
       tool_definitions = [], model_name = Some m \<rparr>"
    using start_state [OF ne assms(2)] assms(1) by (simp add: extract_short)
  have n: "py_strip t \<noteq> []" using assms(4,5) by auto
  have wr: "written H (thought_world H st w) [py_strip t]"
    using assms(7) by (simp add: assms(5))
  show l: "length (context_text (appended st t k)) = 64"
    using assms(1,4) by (simp add: appended_def assms(5) NL_def st)
  have over: "compress_at_chars st < int (length (context_text st @ py_strip t @ NL))"
    using assms(1,4) by (simp add: assms(5) NL_def st)
  note s = think_once_compressed(1) [OF assms(3) n assms(6) wr over]
  show "compression_count (fst (snd (think_once H (st, w)))) = 1"
    unfolding s by (simp add: compress_compression_count) (simp add: appended_def st)
  assume g: "fst (generate H (appended st t k) (compress_prompt (context_text (appended st t k)))
                300 0.5 (after_thought H st w t k)) = Reply u j"
  have io: "io_ok H (now (after_thought H st w t k))"
    using assms(7) by (simp add: after_thought_now written_def)
  have "context_text (fst (snd (compress H (appended st t k, after_thought H st w t k)))) =
      tool_definitions (appended st t k) @ MEMORY_CORE @ py_strip u @ CONTINUATION_CUE"
    by (rule compress_replied_context [OF io g])
  then show "context_text (fst (snd (think_once H (st, w)))) = MEMORY_CORE @ py_strip u @ CONTINUATION_CUE"
    unfolding s by (simp add: appended_def st)
qed

lemma sixty_strip: "py_strip sixty = sixty"
  by (rule py_strip_id) (simp_all add: sixty_def py_isspace_def)

lemma sixty_length: "length sixty = 60"
  by (simp add: sixty_def)

lemma summary24_strip: "py_strip summary24 = summary24"
  by (rule py_strip_id) (simp_all add: summary24_def py_isspace_def)

lemma sixty_encodable: "encodable sixty"
  by (simp add: sixty_def encodable_def list_all_iff)

lemma demo_start:
  "start (mock rs) (ascii ''m'') (ISBE_init (Fin 0) 6000 50 (ascii ''default'') (Some demo_seed)) =
     Some (Live, demo_isbe, demo_world)"
  by (simp add: start_def written_def mock_def encodable_def ascii_def demo_isbe_def demo_world_def
      load_def ISBE_init_def demo_seed_def py_strip_def py_isspace_def now_def Let_def)

lemma demo_think_reply:
  "fst (generate (mock [Reply sixty 60, Reply summary24 5]) demo_isbe (context_text demo_isbe)
          256 0.85 demo_world) = Reply sixty 60"
  by (simp add: generate_fst mock_def demo_world_def now_def)

lemma demo_no_overflow:
  "\<not> (elapsed_pos (mock rs) n \<and> float_overflow 60)"
  by (simp add: float_overflow_def)

lemma mock_written: "written (mock rs) w texts = list_all encodable texts"
  by (simp add: written_def mock_def)

lemma demo_summary_reply:
  "fst (generate (mock [Reply sixty 60, Reply summary24 5]) (appended demo_isbe sixty 60)
          (compress_prompt (context_text (appended demo_isbe sixty 60))) 300 0.5
          (after_thought (mock [Reply sixty 60, Reply summary24 5]) demo_isbe demo_world sixty 60))
     = Reply summary24 5"
  by (simp add: generate_fst after_thought_now) 
     (simp add: now_def thought_world_calls requests_of_def mock_def demo_world_def)

lemma think_once_unwritten:
  assumes "fst (generate H st (context_text st) 256 0.85 w) = Reply t k"
    and "py_strip t \<noteq> []"
    and "\<not> (elapsed_pos H (now (thought_world H st w)) \<and> float_overflow k)"
    and "\<not> written H (thought_world H st w) [py_strip t]"
  shows "fst (snd (think_once H (st, w))) = (appended st t k)\<lparr>thinking := False\<rparr>"
  using assms by (auto simp: think_once_unfold caught_def)

lemma sixty_surrogate_strip: "py_strip sixty_surrogate = sixty_surrogate"
  by (rule py_strip_id) (simp_all add: sixty_surrogate_def py_isspace_def)

lemma sixty_surrogate_length: "length sixty_surrogate = 60"
  by (simp add: sixty_surrogate_def)

lemma sixty_surrogate_unwritten: "\<not> written (mock rs) w [sixty_surrogate]"
  by (simp add: mock_written sixty_surrogate_def encodable_def)








section \<open>C1: an exception in a dialog turn leaves the loop\<close>

text \<open>
  C1 says that no exception of the backend leaves the body of the loop, so that the loop
  thread stays live while \<open>alive\<close> is true. \<open>_think_once\<close> catches every exception, but
  \<open>_respond_to_human\<close> has \<open>try ... finally\<close> with no handler and \<open>_loop\<close> has none
  either. In the demo session, with the interjection \<open>hello\<close> submitted and a backend
  that raises on every request, one pass of the loop ends with the thread dead of the
  exception while \<open>alive\<close> is still true.
\<close>

theorem dialog_failure_kills_loop:
  "fst (run (mock []) [upon (Submit (ascii ''hello''))] (Live, demo_isbe, demo_world)) = Crashed \<and>
   alive (fst (snd (run (mock []) [upon (Submit (ascii ''hello''))] (Live, demo_isbe, demo_world))))"
  by (simp add: demo_isbe_eq demo_world_def loop_defs eval_defs)

section \<open>C2: what \<open>speak\<close> returns\<close>

text \<open>
  C2 says that a caller whose reply did not arrive within the timeout receives the
  sentinel, and that the sentinel tells this case apart from a real empty reply and from
  the reply to an earlier submission. \<open>speak\<close> clears the response event but never
  \<open>_response_text\<close>, and it returns \<open>self._response_text or\<close> the sentinel. In the demo
  session, with a backend that answers \<open>yo\<close> once and raises from then on:
  \<^item> a first submission \<open>hello\<close> is answered \<open>yo\<close>; a second submission \<open>again\<close>, whose
    pass takes 400 seconds, longer than the 300 of the wait, times out and returns \<open>yo\<close>,
    the reply to the earlier submission, not the sentinel;
  \<^item> a submission \<open>again\<close> that arrives while the dialog turn for the pending \<open>hello\<close> is
    under way returns \<open>yo\<close>, the reply to \<open>hello\<close>, when that turn ends.

  And with a backend whose dialog reply is one blank, the reply is delivered (the
  response event is set) and the caller receives the sentinel, exactly as the caller
  whose wait timed out.
\<close>

theorem speak_returns_stale_reply:
  "fst (speak (mock [Reply (ascii ''yo'') 1]) (ascii ''hello'') [(calm, 5)]
          (Live, demo_isbe, demo_world)) = ascii ''yo'' \<and>
   fst (speak (mock [Reply (ascii ''yo'') 1]) (ascii ''again'') [(calm, 400)]
          (snd (speak (mock [Reply (ascii ''yo'') 1]) (ascii ''hello'') [(calm, 5)]
                  (Live, demo_isbe, demo_world)))) = ascii ''yo'' \<and>
   ascii ''yo'' \<noteq> NO_RESPONSE \<and>
   fst (speak_during (mock [Reply (ascii ''yo'') 1]) (ascii ''again'') 10 []
          (Live, demo_pending, demo_world)) = ascii ''yo'' \<and>
   fst (speak (mock [Reply (ascii '' '') 1]) (ascii ''hello'') [(calm, 5)]
          (Live, demo_isbe, demo_world)) = NO_RESPONSE \<and>
   response_event (fst (snd (snd (speak (mock [Reply (ascii '' '') 1]) (ascii ''hello'') [(calm, 5)]
          (Live, demo_isbe, demo_world))))) \<and>
   fst (speak (mock [Reply (ascii '' '') 1]) (ascii ''hello'') [(calm, 400)]
          (Live, demo_isbe, demo_world)) = NO_RESPONSE"
  by (simp add: demo_pending_eq demo_isbe_eq demo_world_def loop_defs speak_defs eval_defs
      NO_RESPONSE_def)

section \<open>C3: a failed compression leaves the context as it was\<close>


section \<open>C4: the threshold test after every append\<close>

text \<open>
  C4, as stated, ends with: for every summary the backend returns, the compression of the
  scenario produces a context no longer than the context before it. \<open>_compress\<close> puts no
  bound on the summary, and the rebuilt context is 41 characters longer than the stripped
  summary. In the scenario (seed of 3 characters, trigger 50, first reply of 60
  characters) the context is 64 characters long after the think turn, and a summary of
  24 characters gives a context of 65. C4 also begins with: after every append the
  threshold is checked. Between the append and the test stand two prints and the log
  line; with a first reply of 60 characters that ends in a lone surrogate the append takes
  place, the context is 64 characters long, the \<open>print\<close> of the reply raises, and the turn
  ends without a compression.
\<close>

theorem compression_may_grow_counterexample:
  "length (context_text (appended demo_isbe sixty 60)) = 64 \<and>
   \<not> length (context_text (fst (snd (think_once (mock [Reply sixty 60, Reply summary24 5])
                                       (demo_isbe, demo_world)))))
       \<le> length (context_text (appended demo_isbe sixty 60)) \<and>
   length sixty_surrogate = 60 \<and> py_strip sixty_surrogate = sixty_surrogate \<and>
   context_text (fst (snd (think_once (mock [Reply sixty_surrogate 60, Reply summary24 5])
                             (demo_isbe, demo_world))))
     = context_text demo_isbe @ sixty_surrogate @ NL \<and>
   compress_at_chars demo_isbe < int (length (context_text demo_isbe @ sixty_surrogate @ NL)) \<and>
   compression_count (fst (snd (think_once (mock [Reply sixty_surrogate 60, Reply summary24 5])
                                  (demo_isbe, demo_world)))) = 0"
proof -
  have l: "length demo_seed = 3"
    by (simp add: demo_seed_def ascii_def)
  have w: "written (mock [Reply sixty 60, Reply summary24 5])
             (thought_world (mock [Reply sixty 60, Reply summary24 5]) demo_isbe demo_world) [sixty]"
    by (simp add: mock_written sixty_encodable)
  note s = scenario [OF l demo_start demo_think_reply sixty_length sixty_strip demo_no_overflow w]
  have "context_text (fst (snd (think_once (mock [Reply sixty 60, Reply summary24 5])
           (demo_isbe, demo_world)))) = MEMORY_CORE @ summary24 @ CONTINUATION_CUE"
    using s(3) [OF demo_summary_reply] by (simp add: summary24_strip)
  then have "length (context_text (fst (snd (think_once (mock [Reply sixty 60, Reply summary24 5])
           (demo_isbe, demo_world))))) = 41 + length summary24"
    by (simp only: rebuilt_length)
  moreover have "length summary24 = 24"
    by (simp add: summary24_def)
  ultimately have a: "\<not> length (context_text (fst (snd (think_once
        (mock [Reply sixty 60, Reply summary24 5]) (demo_isbe, demo_world)))))
       \<le> length (context_text (appended demo_isbe sixty 60))"
    using s(1) by simp
  have g: "fst (generate (mock [Reply sixty_surrogate 60, Reply summary24 5]) demo_isbe
             (context_text demo_isbe) 256 0.85 demo_world) = Reply sixty_surrogate 60"
    by (simp add: generate_fst mock_def demo_world_def now_def)
  have n: "py_strip sixty_surrogate \<noteq> []"
    unfolding sixty_surrogate_strip by (simp add: sixty_surrogate_def)
  have u: "\<not> written (mock [Reply sixty_surrogate 60, Reply summary24 5])
      (thought_world (mock [Reply sixty_surrogate 60, Reply summary24 5]) demo_isbe demo_world)
      [py_strip sixty_surrogate]"
    unfolding sixty_surrogate_strip by (rule sixty_surrogate_unwritten)
  note t = think_once_unwritten [OF g n demo_no_overflow u]
  have b: "context_text (fst (snd (think_once (mock [Reply sixty_surrogate 60, Reply summary24 5])
                             (demo_isbe, demo_world))))
     = context_text demo_isbe @ sixty_surrogate @ NL"
    unfolding t by (simp add: appended_def sixty_surrogate_strip)
  have c: "compression_count (fst (snd (think_once (mock [Reply sixty_surrogate 60, Reply summary24 5])
                                  (demo_isbe, demo_world)))) = 0"
    unfolding t by (simp add: appended_def demo_isbe_eq)
  have d: "compress_at_chars demo_isbe < int (length (context_text demo_isbe @ sixty_surrogate @ NL))"
    by (simp add: demo_isbe_eq sixty_surrogate_length)
  show ?thesis
    by (intro conjI) (rule s(1) a sixty_surrogate_length sixty_surrogate_strip b c d)+
qed
text \<open>
  C4, amended. After the append of a think turn whose prints and log line succeed, and
  after the append of a dialog turn whose log line succeeds, a context longer than
  \<open>compress_at_chars\<close> makes the same turn run a compression cycle: the compression
  counter goes up by one before the turn ends, and the last requests of the turn are
  those of the compression prompt built from the appended context. In the scenario, with
  a first reply of 60 characters that stripping leaves unchanged and that can be printed
  and logged, the context is 64 characters long after the append and one compression runs
  in the turn; when its backend call returns the summary \<open>u\<close>, the new context is the
  memory label, the stripped summary and the continuation cue, of length 41 plus the
  length of the stripped summary, which is at most 64 exactly when the stripped summary
  has at most 23 characters.
\<close>

theorem append_triggers_compression:
  "(fst (generate H st (context_text st) 256 0.85 w) = Reply t k \<and> py_strip t \<noteq> [] \<and>
    \<not> (elapsed_pos H (now (thought_world H st w)) \<and> float_overflow k) \<and>
    written H (thought_world H st w) [py_strip t] \<and>
    compress_at_chars st < int (length (context_text st @ py_strip t @ NL)) \<longrightarrow>
      compression_count (fst (snd (think_once H (st, w)))) = compression_count st + 1 \<and>
      suffix (requests_of H (appended st t k) (compress_prompt (context_text st @ py_strip t @ NL))
                300 0.5 (after_thought H st w t k))
        (calls (snd (snd (think_once H (st, w)))))) \<and>
   (fst (generate H st (dialog_context st message) 512 0.7 w) = Reply t' k' \<and>
    written H (dialog_world H st message w) [py_strip t', py_format message] \<and>
    compress_at_chars st < int (length (dialog_context st message @ py_strip t' @ NL)) \<longrightarrow>
      compression_count (fst (snd (respond_to_human H message (st, w)))) = compression_count st + 1 \<and>
      suffix (requests_of H (replied st message t')
                (compress_prompt (dialog_context st message @ py_strip t' @ NL)) 300 0.5
                (after_reply H st message w t'))
        (calls (snd (snd (respond_to_human H message (st, w)))))) \<and>
   (length seed = 3 \<and> start H m (ISBE_init iv mc 50 name (Some seed)) = Some (th, st, w0) \<and>
    fst (generate H st (context_text st) 256 0.85 w) = Reply t k \<and> length t = 60 \<and> py_strip t = t \<and>
    \<not> (elapsed_pos H (now (thought_world H st w)) \<and> float_overflow k) \<and>
    written H (thought_world H st w) [t] \<longrightarrow>
      length (context_text (appended st t k)) = 64 \<and>
      compression_count (fst (snd (think_once H (st, w)))) = 1 \<and>
      (\<forall>u j. fst (generate H (appended st t k) (compress_prompt (context_text (appended st t k)))
                    300 0.5 (after_thought H st w t k)) = Reply u j \<longrightarrow>
         context_text (fst (snd (think_once H (st, w)))) = MEMORY_CORE @ py_strip u @ CONTINUATION_CUE \<and>
         length (context_text (fst (snd (think_once H (st, w))))) = 41 + length (py_strip u) \<and>
         (length (context_text (fst (snd (think_once H (st, w))))) \<le> 64 \<longleftrightarrow>
            length (py_strip u) \<le> 23)))"
proof (intro conjI impI allI)
  assume h: "fst (generate H st (context_text st) 256 0.85 w) = Reply t k \<and> py_strip t \<noteq> [] \<and>
    \<not> (elapsed_pos H (now (thought_world H st w)) \<and> float_overflow k) \<and>
    written H (thought_world H st w) [py_strip t] \<and>
    compress_at_chars st < int (length (context_text st @ py_strip t @ NL))"
  then have h1: "fst (generate H st (context_text st) 256 0.85 w) = Reply t k"
    and h2: "py_strip t \<noteq> []"
    and h3: "\<not> (elapsed_pos H (now (thought_world H st w)) \<and> float_overflow k)"
    and h4: "written H (thought_world H st w) [py_strip t]"
    and h5: "compress_at_chars st < int (length (context_text st @ py_strip t @ NL))"
    by blast+
  show "compression_count (fst (snd (think_once H (st, w)))) = compression_count st + 1"
    by (rule crossing_think_compresses(1) [OF h1 h2 h3 h4 h5])
  show "suffix (requests_of H (appended st t k)
        (compress_prompt (context_text st @ py_strip t @ NL)) 300 0.5 (after_thought H st w t k))
        (calls (snd (snd (think_once H (st, w)))))"
    by (rule crossing_think_compresses(2) [OF h1 h2 h3 h4 h5])
next
  assume "fst (generate H st (dialog_context st message) 512 0.7 w) = Reply t' k' \<and>
    written H (dialog_world H st message w) [py_strip t', py_format message] \<and>
    compress_at_chars st < int (length (dialog_context st message @ py_strip t' @ NL))"
  then have d1: "fst (generate H st (dialog_context st message) 512 0.7 w) = Reply t' k'"
    and d2: "written H (dialog_world H st message w) [py_strip t', py_format message]"
    and d3: "compress_at_chars st < int (length (dialog_context st message @ py_strip t' @ NL))"
    by blast+
  show "compression_count (fst (snd (respond_to_human H message (st, w)))) = compression_count st + 1"
    by (rule crossing_dialog_compresses(1) [OF d1 d2 d3])
  show "suffix (requests_of H (replied st message t')
                (compress_prompt (dialog_context st message @ py_strip t' @ NL)) 300 0.5
                (after_reply H st message w t'))
        (calls (snd (snd (respond_to_human H message (st, w)))))"
    by (rule crossing_dialog_compresses(2) [OF d1 d2 d3])
next
  assume h: "length seed = 3 \<and> start H m (ISBE_init iv mc 50 name (Some seed)) = Some (th, st, w0) \<and>
    fst (generate H st (context_text st) 256 0.85 w) = Reply t k \<and> length t = 60 \<and> py_strip t = t \<and>
    \<not> (elapsed_pos H (now (thought_world H st w)) \<and> float_overflow k) \<and>
    written H (thought_world H st w) [t]"
  then have a: "length seed = 3"
    and b: "start H m (ISBE_init iv mc 50 name (Some seed)) = Some (th, st, w0)"
    and c: "fst (generate H st (context_text st) 256 0.85 w) = Reply t k"
    and d: "length t = 60" and e: "py_strip t = t"
    and f: "\<not> (elapsed_pos H (now (thought_world H st w)) \<and> float_overflow k)"
    and g: "written H (thought_world H st w) [t]"
    by blast+
  note s = scenario [OF a b c d e f g]
  show "length (context_text (appended st t k)) = 64" by (rule s(1))
  show "compression_count (fst (snd (think_once H (st, w)))) = 1" by (rule s(2))
  fix u j
  assume r: "fst (generate H (appended st t k) (compress_prompt (context_text (appended st t k)))
                    300 0.5 (after_thought H st w t k)) = Reply u j"
  show x: "context_text (fst (snd (think_once H (st, w)))) = MEMORY_CORE @ py_strip u @ CONTINUATION_CUE"
    by (rule s(3) [OF r])
  show y: "length (context_text (fst (snd (think_once H (st, w))))) = 41 + length (py_strip u)"
    unfolding x by (rule rebuilt_length)
  show "length (context_text (fst (snd (think_once H (st, w))))) \<le> 64 \<longleftrightarrow> length (py_strip u) \<le> 23"
    unfolding y by arith
qed
theorem append_triggers_compression_witness:
  "fst (generate (mock [Reply sixty 60, Reply summary24 5]) demo_isbe (context_text demo_isbe)
          256 0.85 demo_world) = Reply sixty 60 \<and>
   py_strip sixty \<noteq> [] \<and>
   \<not> (elapsed_pos (mock [Reply sixty 60, Reply summary24 5])
         (now (thought_world (mock [Reply sixty 60, Reply summary24 5]) demo_isbe demo_world)) \<and>
       float_overflow 60) \<and>
   written (mock [Reply sixty 60, Reply summary24 5])
     (thought_world (mock [Reply sixty 60, Reply summary24 5]) demo_isbe demo_world) [py_strip sixty] \<and>
   compress_at_chars demo_isbe < int (length (context_text demo_isbe @ py_strip sixty @ NL)) \<and>
   fst (generate (mock [Reply sixty 60, Reply summary24 5]) demo_isbe
          (dialog_context demo_isbe (Some (ascii ''hello''))) 512 0.7 demo_world) = Reply sixty 60 \<and>
   written (mock [Reply sixty 60, Reply summary24 5])
     (dialog_world (mock [Reply sixty 60, Reply summary24 5]) demo_isbe (Some (ascii ''hello'')) demo_world)
     [py_strip sixty, py_format (Some (ascii ''hello''))] \<and>
   compress_at_chars demo_isbe
     < int (length (dialog_context demo_isbe (Some (ascii ''hello'')) @ py_strip sixty @ NL)) \<and>
   length demo_seed = 3 \<and>
   start (mock [Reply sixty 60, Reply summary24 5]) (ascii ''m'')
     (ISBE_init (Fin 0) 6000 50 (ascii ''default'') (Some demo_seed)) = Some (Live, demo_isbe, demo_world) \<and>
   length sixty = 60 \<and> py_strip sixty = sixty \<and>
   written (mock [Reply sixty 60, Reply summary24 5])
     (thought_world (mock [Reply sixty 60, Reply summary24 5]) demo_isbe demo_world) [sixty] \<and>
   fst (generate (mock [Reply sixty 60, Reply summary24 5]) (appended demo_isbe sixty 60)
          (compress_prompt (context_text (appended demo_isbe sixty 60))) 300 0.5
          (after_thought (mock [Reply sixty 60, Reply summary24 5]) demo_isbe demo_world sixty 60))
     = Reply summary24 5 \<and>
   compression_count (fst (snd (think_once (mock [Reply sixty 60, Reply summary24 5])
                                  (demo_isbe, demo_world)))) = compression_count demo_isbe + 1 \<and>
   compression_count (fst (snd (respond_to_human (mock [Reply sixty 60, Reply summary24 5])
                                  (Some (ascii ''hello'')) (demo_isbe, demo_world))))
     = compression_count demo_isbe + 1 \<and>
   length (context_text (appended demo_isbe sixty 60)) = 64 \<and>
   context_text (fst (snd (think_once (mock [Reply sixty 60, Reply summary24 5]) (demo_isbe, demo_world))))
     = MEMORY_CORE @ py_strip summary24 @ CONTINUATION_CUE \<and>
   length (context_text (fst (snd (think_once (mock [Reply sixty 60, Reply summary24 5])
                                     (demo_isbe, demo_world))))) = 41 + length (py_strip summary24)"
proof -
  have w2: "py_strip sixty \<noteq> []"
    unfolding sixty_strip by (simp add: sixty_def)
  have w3: "compress_at_chars demo_isbe < int (length (context_text demo_isbe @ py_strip sixty @ NL))"
    unfolding sixty_strip by (simp add: sixty_length demo_isbe_eq)
  have w4: "fst (generate (mock [Reply sixty 60, Reply summary24 5]) demo_isbe
          (dialog_context demo_isbe (Some (ascii ''hello''))) 512 0.7 demo_world) = Reply sixty 60"
    by (simp add: generate_fst mock_def demo_world_def now_def)
  have w5: "compress_at_chars demo_isbe
     < int (length (dialog_context demo_isbe (Some (ascii ''hello'')) @ py_strip sixty @ NL))"
    unfolding sixty_strip by (simp add: sixty_length demo_isbe_eq)
  have w6: "length demo_seed = 3"
    by (simp add: demo_seed_def ascii_def)
  have w7: "written (mock [Reply sixty 60, Reply summary24 5])
     (thought_world (mock [Reply sixty 60, Reply summary24 5]) demo_isbe demo_world) [py_strip sixty]"
    by (simp add: mock_written sixty_strip sixty_encodable)
  have w8: "written (mock [Reply sixty 60, Reply summary24 5])
     (dialog_world (mock [Reply sixty 60, Reply summary24 5]) demo_isbe (Some (ascii ''hello'')) demo_world)
     [py_strip sixty, py_format (Some (ascii ''hello''))]"
    by (simp add: mock_written sixty_strip sixty_encodable)
       (simp add: py_format_def encodable_def ascii_def)
  have w9: "written (mock [Reply sixty 60, Reply summary24 5])
     (thought_world (mock [Reply sixty 60, Reply summary24 5]) demo_isbe demo_world) [sixty]"
    by (simp add: mock_written sixty_encodable)
  show ?thesis
    using append_triggers_compression
            [where H = "mock [Reply sixty 60, Reply summary24 5]" and st = demo_isbe
               and w = demo_world and t = sixty and k = 60 and message = "Some (ascii ''hello'')"
               and t' = sixty and k' = 60 and seed = demo_seed and m = "ascii ''m''"
               and iv = "Fin 0" and mc = 6000 and name = "ascii ''default''" and th = Live
               and ?w0.0 = demo_world]
          demo_think_reply w2 w3 w4 w5 w6 w7 w8 w9 demo_start sixty_length sixty_strip
          demo_summary_reply demo_no_overflow
    by blast
qed

section \<open>C5: the tool preamble survives compression\<close>

text \<open>
  C5: whenever a compression cycle succeeds, \<open>tool_definitions\<close> (extracted from the seed
  by \<open>__init__\<close> and assigned nowhere else) is unchanged and is a prefix of the rebuilt
  context, so the context is at least as long as the preamble, whatever summary the
  backend returned; and when a second compression follows at once and succeeds, the same
  holds of the context it rebuilds. The witness is a session whose seed has a tool
  section, compressed twice in succession.
\<close>

theorem tool_preamble_survives_compression:
  assumes "fst (compress H (st, w)) = Returned ()"
  shows "(case compress H (st, w) of (r, st', w') \<Rightarrow>
           tool_definitions st' = tool_definitions st \<and>
           prefix (tool_definitions st) (context_text st') \<and>
           length (tool_definitions st) \<le> length (context_text st') \<and>
           (fst (compress H (st', w')) = Returned () \<longrightarrow>
              prefix (tool_definitions st) (context_text (fst (snd (compress H (st', w'))))) \<and>
              length (tool_definitions st) \<le> length (context_text (fst (snd (compress H (st', w')))))))"
proof -
  have one: "tool_definitions (fst (snd (compress H (s, v)))) = tool_definitions s \<and>
      prefix (tool_definitions s) (context_text (fst (snd (compress H (s, v))))) \<and>
      length (tool_definitions s) \<le> length (context_text (fst (snd (compress H (s, v)))))"
    if "fst (compress H (s, v)) = Returned ()" for s v
    using that by (cases rule: compress_cases [of H v s]) simp_all
  obtain r st' w' where c: "compress H (st, w) = (r, st', w')"
    by (cases "compress H (st, w)") auto
  from one [OF assms] c have f: "tool_definitions st' = tool_definitions st"
    "prefix (tool_definitions st) (context_text st')"
    "length (tool_definitions st) \<le> length (context_text st')"
    by simp_all
  have "prefix (tool_definitions st) (context_text (fst (snd (compress H (st', w'))))) \<and>
        length (tool_definitions st) \<le> length (context_text (fst (snd (compress H (st', w')))))"
    if h: "fst (compress H (st', w')) = Returned ()"
    using one [OF h] f(1) by simp
  with f c show ?thesis by simp
qed
theorem tool_preamble_survives_compression_witness:
  "fst (compress (mock [Reply (ascii '' s1 '') 1, Reply (ascii ''s2'') 1]) (tool_isbe, demo_world))
     = Returned () \<and>
   tool_definitions tool_isbe = extract_tool_definitions tool_seed \<and>
   extract_tool_definitions tool_seed \<noteq> [] \<and>
   (case compress (mock [Reply (ascii '' s1 '') 1, Reply (ascii ''s2'') 1]) (tool_isbe, demo_world) of
      (r, st', w') \<Rightarrow>
        tool_definitions st' = tool_definitions tool_isbe \<and>
        prefix (tool_definitions tool_isbe) (context_text st') \<and>
        length (tool_definitions tool_isbe) \<le> length (context_text st') \<and>
        fst (compress (mock [Reply (ascii '' s1 '') 1, Reply (ascii ''s2'') 1]) (st', w'))
          = Returned () \<and>
        prefix (tool_definitions tool_isbe)
          (context_text (fst (snd (compress (mock [Reply (ascii '' s1 '') 1, Reply (ascii ''s2'') 1])
             (st', w'))))) \<and>
        length (tool_definitions tool_isbe)
          \<le> length (context_text (fst (snd (compress (mock [Reply (ascii '' s1 '') 1, Reply (ascii ''s2'') 1])
             (st', w'))))))"
proof -
  define H where "H = mock [Reply (ascii '' s1 '') 1, Reply (ascii ''s2'') 1]"
  have io: "io_ok H n" for n
    by (simp add: H_def mock_def)
  have ne: "context_text tool_isbe \<noteq> []"
    by (simp add: tool_isbe_eq tool_seed_def NL_def)
  have e: "encodable (py_strip (ascii '' s1 ''))" "encodable (py_strip (ascii ''s2''))"
    by (simp_all add: py_strip_def py_isspace_def ascii_def encodable_def)
  have h1: "fst (compress H (tool_isbe, demo_world)) = Returned ()"
    unfolding compress_outcome
    by (simp add: io ne generate_fst written_def e H_def mock_def demo_world_def now_def)
  obtain st' w' where c: "compress H (tool_isbe, demo_world) = (Returned (), st', w')"
    using h1 by (cases "compress H (tool_isbe, demo_world)") auto
  have "now w' = 1"
    using compress_calls [of H tool_isbe demo_world] c
    by (simp add: requests_of_def H_def mock_def demo_world_def now_def)
  moreover have "context_text st' \<noteq> []"
    using compress_context_nonempty [OF ne, of H demo_world] c by simp
  ultimately have h2: "fst (compress H (st', w')) = Returned ()"
    unfolding compress_outcome
    by (simp add: generate_fst written_def e H_def mock_def)
  have t: "tool_definitions tool_isbe = extract_tool_definitions tool_seed"
    by (simp add: tool_isbe_eq tool_seed_extract)
  have n: "extract_tool_definitions tool_seed \<noteq> []"
    by (simp add: tool_seed_extract NL_def)
  show ?thesis
    using tool_preamble_survives_compression [OF h1] h1 h2 c t n
    unfolding H_def [symmetric] by simp
qed

section \<open>C6: the length of the context after a think turn\<close>

text \<open>
  C6, as stated, is about every successful think turn that produces a non-empty generated
  text and does not cross the threshold. \<open>_think_once\<close> strips the text and returns
  without appending when nothing is left: a reply of one blank is not empty, the turn
  returns with no exception and no backoff, and the context is as before, not one
  character longer. And a turn whose reply comes with a token count of 2 ^ 1024 raises in
  \<open>tokens_generated / t_elapsed\<close>, after the thought was counted and before the append:
  the context is as before although the generated text was \<open>ok\<close>.
\<close>

theorem blank_thought_counterexample:
  "fst (generate (mock [Reply (ascii '' '') 1]) demo_isbe (context_text demo_isbe) 256 0.85 demo_world)
     = Reply (ascii '' '') 1 \<and>
   ascii '' '' \<noteq> [] \<and>
   fst (think_once (mock [Reply (ascii '' '') 1]) (demo_isbe, demo_world)) = Returned () \<and>
   slept (snd (snd (think_once (mock [Reply (ascii '' '') 1]) (demo_isbe, demo_world)))) = 0 \<and>
   int (length (context_text demo_isbe) + length (py_strip (ascii '' '')) + 1)
     \<le> compress_at_chars demo_isbe \<and>
   context_text (fst (snd (think_once (mock [Reply (ascii '' '') 1]) (demo_isbe, demo_world))))
     = context_text demo_isbe \<and>
   length (context_text (fst (snd (think_once (mock [Reply (ascii '' '') 1]) (demo_isbe, demo_world)))))
     \<noteq> length (context_text demo_isbe) + length (py_strip (ascii '' '')) + 1 \<and>
   py_strip (ascii ''ok'') \<noteq> [] \<and>
   context_text (fst (snd (think_once (mock [Reply (ascii ''ok'') (2 ^ 1024)]) (demo_isbe, demo_world))))
     = context_text demo_isbe \<and>
   thought_count (fst (snd (think_once (mock [Reply (ascii ''ok'') (2 ^ 1024)]) (demo_isbe, demo_world))))
     = 1 \<and>
   slept (snd (snd (think_once (mock [Reply (ascii ''ok'') (2 ^ 1024)]) (demo_isbe, demo_world)))) = 2"
  by (simp add: demo_isbe_eq demo_world_def think_once_def float_overflow_def eval_defs)
text \<open>
  C6, amended: a think turn in which the backend replies, the stripped text is not empty,
  the division by the duration does not overflow and the appended context does not exceed
  \<open>compress_at_chars\<close> appends exactly the stripped text and one newline: the context
  afterwards is the context before, the stripped text and one newline, so its length
  grows by the length of the stripped text plus one, and no compression runs. This holds
  whether or not the prints and the log line that follow the append succeed. The
  statement is about any session state, hence about every turn of a sequence of such
  turns.
\<close>

theorem think_turn_length:
  assumes "fst (generate H st (context_text st) 256 0.85 w) = Reply t k"
    and "py_strip t \<noteq> []"
    and "\<not> (elapsed_pos H (now (thought_world H st w)) \<and> float_overflow k)"
    and "int (length (context_text st) + length (py_strip t) + 1) \<le> compress_at_chars st"
  shows "context_text (fst (snd (think_once H (st, w)))) = context_text st @ py_strip t @ NL \<and>
         length (context_text (fst (snd (think_once H (st, w))))) =
           length (context_text st) + length (py_strip t) + 1 \<and>
         compression_count (fst (snd (think_once H (st, w)))) = compression_count st"
proof -
  have "int (length (context_text st @ py_strip t @ NL)) \<le> compress_at_chars st"
    using assms(4) by (simp add: NL_def)
  from think_once_appends [OF assms(1,2,3) this] show ?thesis
    by (simp add: appended_def NL_def)
qed
theorem think_turn_length_witness:
  "fst (generate (mock [Reply (ascii '' ok '') 1]) demo_isbe (context_text demo_isbe) 256 0.85
          demo_world) = Reply (ascii '' ok '') 1 \<and>
   py_strip (ascii '' ok '') \<noteq> [] \<and>
   \<not> (elapsed_pos (mock [Reply (ascii '' ok '') 1])
         (now (thought_world (mock [Reply (ascii '' ok '') 1]) demo_isbe demo_world)) \<and>
       float_overflow 1) \<and>
   int (length (context_text demo_isbe) + length (py_strip (ascii '' ok '')) + 1)
     \<le> compress_at_chars demo_isbe \<and>
   context_text (fst (snd (think_once (mock [Reply (ascii '' ok '') 1]) (demo_isbe, demo_world)))) =
     context_text demo_isbe @ ascii ''ok'' @ NL \<and>
   length (context_text (fst (snd (think_once (mock [Reply (ascii '' ok '') 1]) (demo_isbe, demo_world)))))
     = 3 + 2 + 1"
proof -
  have g: "fst (generate (mock [Reply (ascii '' ok '') 1]) demo_isbe (context_text demo_isbe)
             256 0.85 demo_world) = Reply (ascii '' ok '') 1"
    by (simp add: generate_fst mock_def demo_world_def now_def)
  have s: "py_strip (ascii '' ok '') = ascii ''ok''"
    by (simp add: py_strip_def py_isspace_def ascii_def)
  have n: "py_strip (ascii '' ok '') \<noteq> []"
    by (simp add: s) (simp add: ascii_def)
  have o: "\<not> (elapsed_pos (mock [Reply (ascii '' ok '') 1])
         (now (thought_world (mock [Reply (ascii '' ok '') 1]) demo_isbe demo_world)) \<and>
       float_overflow 1)"
    by (simp add: float_overflow_def)
  have l: "int (length (context_text demo_isbe) + length (py_strip (ascii '' ok '')) + 1)
     \<le> compress_at_chars demo_isbe"
    by (simp add: s) (simp add: demo_isbe_eq ascii_def)
  note t = think_turn_length [OF g n o l, unfolded s]
  from t have c: "context_text (fst (snd (think_once (mock [Reply (ascii '' ok '') 1])
      (demo_isbe, demo_world)))) = context_text demo_isbe @ ascii ''ok'' @ NL"
    by (rule conjunct1)
  from t have d: "length (context_text (fst (snd (think_once (mock [Reply (ascii '' ok '') 1])
      (demo_isbe, demo_world))))) = length (context_text demo_isbe) + length (ascii ''ok'') + 1"
    by blast
  have e: "length (context_text demo_isbe) + length (ascii ''ok'') + 1 = 3 + 2 + 1"
    by (simp add: demo_isbe_eq ascii_def)
  show ?thesis
    by (intro conjI) (rule g n o l c trans [OF d e])+
qed

section \<open>C7: the parameters of a compression request\<close>

text \<open>
  C7, as stated: every compression cycle calls the backend with a strictly lower
  temperature and a strictly smaller output budget than a think turn. The budget part
  fails: \<open>_compress\<close> asks for 300 tokens and \<open>_think_once\<close> for 256. In the demo
  session, the last request of a compression does not have a smaller \<open>max_tokens\<close> than
  the last request of a think turn.
\<close>

theorem compress_budget_counterexample:
  "\<not> max_tokens (last (calls (snd (snd (compress (mock [Reply (ascii ''ok'') 1]) (demo_isbe, demo_world))))))
     < max_tokens (last (calls (snd (snd (think_once (mock [Reply (ascii ''ok'') 1]) (demo_isbe, demo_world))))))"
  by (simp add: demo_isbe_eq demo_world_def compress_def think_once_def eval_defs)
text \<open>
  C7, amended: the requests of a compression cycle are exactly those of one \<open>_generate\<close>
  call with \<open>max_tokens = 300\<close> and \<open>temperature = 0.5\<close> on the compression prompt (none
  when the \<open>print\<close> that precedes the call raises); a think turn starts with the requests
  of one \<open>_generate\<close> call with \<open>max_tokens = 256\<close> and \<open>temperature = 0.85\<close> on the
  context; every request of a \<open>_generate\<close> call carries the budget and temperature it was
  called with. So the temperature of a compression is strictly lower than that of a think
  turn (0.5 < 0.85), and its output budget is larger (300 > 256), not smaller.
\<close>

theorem compress_request_parameters:
  "calls (snd (snd (compress H (st, w)))) =
     calls w @ (if io_ok H (now w)
                then requests_of H st (compress_prompt (context_text st)) 300 0.5 w else []) \<and>
   prefix (calls w @ requests_of H st (context_text st) 256 0.85 w)
     (calls (snd (snd (think_once H (st, w))))) \<and>
   requests_of H st p mt temp w \<noteq> [] \<and>
   list_all (\<lambda>rq. max_tokens rq = mt \<and> temperature rq = temp) (requests_of H st p mt temp w) \<and>
   (0.5 :: rat) < 0.85 \<and> (256 :: int) < 300"
  using compress_calls [of H st w] think_once_calls [of w H st] requests_of_params [of H st p mt temp w]
  by simp

section \<open>C8: a failed think turn, then a successful one\<close>

text \<open>
  C8, as stated, says that after the backend raised on the first think call and succeeded
  on the second, \<open>thought_count\<close> reads 1, and that the loop remains alive after the
  failure. \<open>_think_once\<close> returns before counting when the stripped reply is empty
  (\<open>if not new_text: return\<close>): with a backend that raises on both endpoints for the first
  think call and then answers with two blanks, the loop is live after two passes and
  \<open>thought_count\<close> still reads 0. And the wait that ends a think pass raises
  \<open>OverflowError\<close> for a \<open>thought_interval\<close> beyond \<open>threading.TIMEOUT_MAX\<close>: in a session
  with an infinite interval the first pass ends with the thread dead while \<open>alive\<close> is
  true.
\<close>

theorem blank_reply_counterexample:
  "fst (generate flaky_blank demo_isbe (context_text demo_isbe) 256 0.85 demo_world) = Fail \<and>
   thought_count (fst (snd (run flaky_blank [calm] (Live, demo_isbe, demo_world)))) = 0 \<and>
   fst (generate flaky_blank
          (fst (snd (run flaky_blank [calm] (Live, demo_isbe, demo_world))))
          (context_text (fst (snd (run flaky_blank [calm] (Live, demo_isbe, demo_world)))))
          256 0.85
          (snd (snd (run flaky_blank [calm] (Live, demo_isbe, demo_world)))))
     = Reply (ascii ''  '') 3 \<and>
   fst (run flaky_blank [calm, calm] (Live, demo_isbe, demo_world)) = Live \<and>
   thought_count (fst (snd (run flaky_blank [calm, calm] (Live, demo_isbe, demo_world)))) = 0 \<and>
   thought_count (fst (snd (run flaky_blank [calm, calm] (Live, demo_isbe, demo_world)))) \<noteq> 1 \<and>
   fst (generate flaky_ok endless_isbe (context_text endless_isbe) 256 0.85 demo_world) = Fail \<and>
   alive (fst (snd (run flaky_ok [calm] (Live, endless_isbe, demo_world)))) \<and>
   fst (run flaky_ok [calm] (Live, endless_isbe, demo_world)) = Crashed"
  by (simp add: flaky_blank_def flaky_ok_def endless_isbe_def demo_isbe_eq demo_world_def
      loop_defs eval_defs)
text \<open>
  C8, amended with the guard of the code and the conditions of the surroundings: output
  succeeds, \<open>thought_interval\<close> is within \<open>threading.TIMEOUT_MAX\<close>, and the second reply is
  not empty after stripping. From a live session with no interjection pending, when the
  backend raises on the think call, the pass ends with the thread live, \<open>alive\<close> true,
  \<open>thought_count\<close> and the context unchanged, and two more seconds slept; and when the
  backend then answers the next think call with a text that is not empty after stripping,
  the next pass ends with the thread live, \<open>alive\<close> true and \<open>thought_count\<close> one higher.
  In the demo session the counter reads 0 and then 1, as the witness shows.
\<close>

theorem transient_failure_then_success:
  assumes "alive st" and "\<not> human_event st"
    and "\<forall>n. io_ok H n" and "\<not> too_long H st"
    and "fst (generate H st (context_text st) 256 0.85 w) = Fail"
  shows "(case iteration H calm (Live, st, w) of (th1, st1, w1) \<Rightarrow>
           th1 = Live \<and> alive st1 \<and> thought_count st1 = thought_count st \<and>
           context_text st1 = context_text st \<and> slept w1 = slept w + 2 \<and>
           (\<forall>t k. fst (generate H st1 (context_text st1) 256 0.85 w1) = Reply t k \<and> py_strip t \<noteq> [] \<longrightarrow>
              (case iteration H calm (th1, st1, w1) of (th2, st2, w2) \<Rightarrow>
                 th2 = Live \<and> alive st2 \<and> thought_count st2 = thought_count st + 1)))"
proof -
  define st1 where "st1 = fst (snd (think_once H (st, w)))"
  define w1 where "w1 = snd (snd (think_once H (st, w)))"
  have i: "iteration H calm (Live, st, w) = (Live, st1, w1)"
    unfolding st1_def w1_def by (rule iteration_think_fine [OF assms(1-4)])
  have io: "io_ok H n" for n
    using assms(3) by simp
  have t: "think_once H (st, w) = caught H (st\<lparr>thinking := True\<rparr>, thought_world H st w)"
    by (rule think_once_failed [OF assms(5)])
  have s: "st1 = st\<lparr>thinking := False\<rparr>"
    unfolding st1_def t by (simp add: caught_def)
  have "slept (thought_world H st w) = slept w"
    by (simp add: thought_world_def generate_slept)
  then have sl: "slept w1 = slept w + 2"
    unfolding w1_def t by (simp add: caught_def io)
  have a1: "alive st1" and h1: "\<not> human_event st1" and l1: "\<not> too_long H st1"
    using assms(1,2,4) by (simp_all add: s too_long_def)
  have second: "(case iteration H calm (Live, st1, w1) of (th2, st2, w2) \<Rightarrow>
                 th2 = Live \<and> alive st2 \<and> thought_count st2 = thought_count st + 1)"
    if g: "fst (generate H st1 (context_text st1) 256 0.85 w1) = Reply t k" and n: "py_strip t \<noteq> []"
    for t k
  proof -
    have "untouched st1 (fst (snd (think_once H (st1, w1))))"
      by (rule think_once_untouched)
    then have "alive (fst (snd (think_once H (st1, w1))))"
      using a1 by (simp add: untouched_def)
    moreover have "thought_count (fst (snd (think_once H (st1, w1)))) = thought_count st + 1"
      using think_once_thought_count [OF g n] by (simp add: s)
    ultimately show ?thesis
      by (simp add: iteration_think_fine [OF a1 h1 assms(3) l1] split_beta)
  qed
  have tc: "thought_count st1 = thought_count st" and cx: "context_text st1 = context_text st"
    by (simp_all add: s)
  show ?thesis
    unfolding i using a1 tc cx sl second by auto
qed
theorem transient_failure_then_success_witness:
  "alive demo_isbe \<and> \<not> human_event demo_isbe \<and> (\<forall>n. io_ok flaky_ok n) \<and>
   \<not> too_long flaky_ok demo_isbe \<and>
   fst (generate flaky_ok demo_isbe (context_text demo_isbe) 256 0.85 demo_world) = Fail \<and>
   fst (iteration flaky_ok calm (Live, demo_isbe, demo_world)) = Live \<and>
   alive (fst (snd (iteration flaky_ok calm (Live, demo_isbe, demo_world)))) \<and>
   thought_count (fst (snd (iteration flaky_ok calm (Live, demo_isbe, demo_world)))) = 0 \<and>
   context_text (fst (snd (iteration flaky_ok calm (Live, demo_isbe, demo_world)))) = context_text demo_isbe \<and>
   slept (snd (snd (iteration flaky_ok calm (Live, demo_isbe, demo_world)))) = 2 \<and>
   fst (generate flaky_ok
          (fst (snd (iteration flaky_ok calm (Live, demo_isbe, demo_world))))
          (context_text (fst (snd (iteration flaky_ok calm (Live, demo_isbe, demo_world)))))
          256 0.85
          (snd (snd (iteration flaky_ok calm (Live, demo_isbe, demo_world)))))
     = Reply (ascii ''ok'') 3 \<and>
   py_strip (ascii ''ok'') \<noteq> [] \<and>
   fst (iteration flaky_ok calm (iteration flaky_ok calm (Live, demo_isbe, demo_world))) = Live \<and>
   thought_count (fst (snd (iteration flaky_ok calm (iteration flaky_ok calm (Live, demo_isbe, demo_world))))) = 1"
proof -
  have a: "alive demo_isbe" and h: "\<not> human_event demo_isbe"
    by (simp_all add: demo_isbe_eq)
  have io: "\<forall>n. io_ok flaky_ok n"
    by (simp add: flaky_ok_def mock_def)
  have l: "\<not> too_long flaky_ok demo_isbe"
    by (simp add: too_long_def demo_isbe_eq)
  have f: "fst (generate flaky_ok demo_isbe (context_text demo_isbe) 256 0.85 demo_world) = Fail"
    by (simp add: generate_fst flaky_ok_def mock_def demo_world_def now_def)
  obtain th1 st1 w1 where x: "iteration flaky_ok calm (Live, demo_isbe, demo_world) = (th1, st1, w1)"
    by (cases "iteration flaky_ok calm (Live, demo_isbe, demo_world)") auto
  have g: "fst (generate flaky_ok st1 (context_text st1) 256 0.85 w1) = Reply (ascii ''ok'') 3"
    using x [symmetric]
    by (simp add: flaky_ok_def demo_isbe_eq demo_world_def calm_def loop_defs eval_defs)
  have n: "py_strip (ascii ''ok'') \<noteq> []"
    by (simp add: py_strip_def py_isspace_def ascii_def)
  have z: "thought_count demo_isbe = 0" "slept demo_world = 0"
    by (simp_all add: demo_isbe_eq demo_world_def)
  show ?thesis
    using transient_failure_then_success [OF a h io l f] a h io l f g n z
    unfolding x by (auto split: prod.splits)
qed

section \<open>C9: a pending interjection and its response\<close>

text \<open>
  C9 says that a loop pass that finds an interjection pending performs the dialog turn,
  consuming the pending message and delivering its response, before any new think turn.
  \<open>_loop\<close> reads the message and clears the human event, then calls
  \<open>_respond_to_human\<close>, and stores the reply and sets the response event only when that
  call returns; nothing catches an exception on the way. In the demo session with
  \<open>hello\<close> pending and a backend that raises on every request, the pass sends the two
  dialog requests and ends with the thread dead: the message is consumed (the human event
  is cleared), no response is stored, the response event is not set, and \<open>speak\<close> returns
  the sentinel when its wait ends.
\<close>

theorem pending_interjection_lost:
  "alive demo_pending \<and> human_event demo_pending \<and>
   human_input demo_pending = Some (ascii ''hello'') \<and>
   fst (iteration (mock []) calm (Live, demo_pending, demo_world)) = Crashed \<and>
   map max_tokens (calls (snd (snd (iteration (mock []) calm (Live, demo_pending, demo_world)))))
     = [512, 512] \<and>
   thought_count (fst (snd (iteration (mock []) calm (Live, demo_pending, demo_world)))) = 0 \<and>
   \<not> human_event (fst (snd (iteration (mock []) calm (Live, demo_pending, demo_world)))) \<and>
   response_text (fst (snd (iteration (mock []) calm (Live, demo_pending, demo_world)))) = None \<and>
   \<not> response_event (fst (snd (iteration (mock []) calm (Live, demo_pending, demo_world)))) \<and>
   fst (speak (mock []) (ascii ''hello'') [(calm, 5), (calm, 5)] (Live, demo_isbe, demo_world))
     = NO_RESPONSE"
  by (simp add: demo_pending_eq demo_isbe_eq demo_world_def loop_defs speak_defs eval_defs)

section \<open>C10: \<open>max_context_chars\<close> is stored and never read\<close>

text \<open>
  C10: two sessions that differ only in \<open>max_context_chars\<close> behave alike. Along any
  schedule of interjections and stops and for any host, the run from the session with
  another \<open>max_context_chars\<close> ends with the same thread status, the same world (the same
  requests, the same seconds slept, the same lines in the log file) and the same session
  fields but for \<open>max_context_chars\<close> itself; \<open>speak\<close> returns the same reply, whether it
  is called between two passes or during one; and \<open>__init__\<close> and \<open>start\<close> use the value
  for nothing but that field. The threshold tests of the turns read \<open>compress_at_chars\<close>
  only.
\<close>

theorem max_context_chars_unused:
  "run H ss (th, st\<lparr>max_context_chars := m\<rparr>, w) = with_max m (run H ss (th, st, w)) \<and>
   speak H msg sched (th, st\<lparr>max_context_chars := m\<rparr>, w) =
     (fst (speak H msg sched (th, st, w)), with_max m (snd (speak H msg sched (th, st, w)))) \<and>
   speak_during H msg secs sched (th, st\<lparr>max_context_chars := m\<rparr>, w) =
     (fst (speak_during H msg secs sched (th, st, w)),
      with_max m (snd (speak_during H msg secs sched (th, st, w)))) \<and>
   ISBE_init iv m ca name cs = (ISBE_init iv m' ca name cs)\<lparr>max_context_chars := m\<rparr> \<and>
   start H mdl (st\<lparr>max_context_chars := m\<rparr>) = map_option (with_max m) (start H mdl st)"
proof (intro conjI)
  show "run H ss (th, st\<lparr>max_context_chars := m\<rparr>, w) = with_max m (run H ss (th, st, w))"
    by (rule run_max)
  have "(th, (env_step (Submit msg) st)\<lparr>max_context_chars := m\<rparr>, w) =
        with_max m (th, env_step (Submit msg) st, w)"
    by (simp add: with_max_def)
  then show "speak H msg sched (th, st\<lparr>max_context_chars := m\<rparr>, w) =
     (fst (speak H msg sched (th, st, w)), with_max m (snd (speak H msg sched (th, st, w))))"
    by (simp add: speak_def env_step_max await_with_max)
  have "(th, st\<lparr>max_context_chars := m\<rparr>, w) = with_max m (th, st, w)"
    by (simp add: with_max_def)
  then show "speak_during H msg secs sched (th, st\<lparr>max_context_chars := m\<rparr>, w) =
     (fst (speak_during H msg secs sched (th, st, w)),
      with_max m (snd (speak_during H msg secs sched (th, st, w))))"
    unfolding speak_during_def by (simp only: await_with_max)
  show "ISBE_init iv m ca name cs = (ISBE_init iv m' ca name cs)\<lparr>max_context_chars := m\<rparr>"
    by (simp add: ISBE_init_def Let_def)
  show "start H mdl (st\<lparr>max_context_chars := m\<rparr>) = map_option (with_max m) (start H mdl st)"
    by (simp add: start_def load_def with_max_def Let_def)
qed

end
